theory Spec2Isabelle
  imports Main "HOL-Library.Multiset"
begin

section \<open>Python values used by gtp\_connection.py\<close>

text \<open>
  A string is a list of characters, and a character is a code point below 256, read
  through its code \<open>of_char c\<close>: the ASCII characters and, from 128 on, those of
  Latin-1. The methods of \<open>str\<close> are modelled on all of these code points.

  \<open>c.isdigit()\<close> holds of the decimal digits and of the superscript digits
  \<open>0xB2\<close>, \<open>0xB3\<close> and \<open>0xB9\<close>. The decimal digits alone are what \<open>int\<close> reads
  and what \<open>\d\<close> matches in a regular expression. \<open>c.isspace()\<close>, which is also what
  \<open>split()\<close> and \<open>lstrip()\<close> take for white space, holds of \<open>0x09\<close> to \<open>0x0D\<close>,
  \<open>0x1C\<close> to \<open>0x20\<close>, \<open>0x85\<close> and \<open>0xA0\<close>.
\<close>

definition code :: "char \<Rightarrow> nat" where
  "code c = of_char c"

definition isdecimal :: "char \<Rightarrow> bool" where
  "isdecimal c = (48 \<le> code c \<and> code c \<le> 57)"

definition isdigit :: "char \<Rightarrow> bool" where
  "isdigit c = (isdecimal c \<or> code c \<in> {178, 179, 185})"

definition isspace :: "char \<Rightarrow> bool" where
  "isspace c = (code c \<in> {9, 10, 11, 12, 13, 28, 29, 30, 31, 32, 133, 160})"

text \<open>\<open>s.lower()\<close>: the upper-case letters are \<open>A\<close> to \<open>Z\<close> and, in Latin-1,
  \<open>0xC0\<close> to \<open>0xDE\<close> without the multiplication sign \<open>0xD7\<close>; the lower-case
  letter of each is 32 code points further.\<close>

definition lower_char :: "char \<Rightarrow> char" where
  "lower_char c =
     (if (65 \<le> code c \<and> code c \<le> 90) \<or> (192 \<le> code c \<and> code c \<le> 222 \<and> code c \<noteq> 215)
      then char_of (code c + 32) else c)"

definition lower :: "string \<Rightarrow> string" where
  "lower s = map lower_char s"

text \<open>The source never calls \<open>upper()\<close>. The statements about coordinate strings use
  the upper-case form of ASCII text, in which \<open>a\<close> to \<open>z\<close> become \<open>A\<close> to
  \<open>Z\<close> and every other character stays.\<close>

definition upper_char :: "char \<Rightarrow> char" where
  "upper_char c = (if 97 \<le> code c \<and> code c \<le> 122 then char_of (code c - 32) else c)"

definition upper :: "string \<Rightarrow> string" where
  "upper s = map upper_char s"

text \<open>Exceptions. \<open>KeyError\<close> carries the missing key, the others their message.
  \<open>SystemExit\<close> is the one exception here that is not a subclass of \<open>Exception\<close>.\<close>

datatype exc =
  KeyError string
  | IndexError string
  | ValueError string
  | TypeError string
  | ZeroDivisionError string
  | AssertionError
  | SystemExit

fun is_Exception :: "exc \<Rightarrow> bool" where
  "is_Exception SystemExit = False"
| "is_Exception _ = True"

text \<open>The text of \<open>str(n)\<close> for an integer: the decimal numeral, with a minus sign
  when negative. (\<open>str_limited\<close>, further down, is the call under the interpreter's
  limit on the digits.)\<close>

definition digit_char :: "nat \<Rightarrow> char" where
  "digit_char d = char_of (48 + d)"

fun str_nat :: "nat \<Rightarrow> string" where
  "str_nat n = (if n < 10 then [digit_char n] else str_nat (n div 10) @ [digit_char (n mod 10)])"

declare str_nat.simps [simp del]

definition str_int :: "int \<Rightarrow> string" where
  "str_int i = (if i < 0 then CHR ''-'' # str_nat (nat (- i)) else str_nat (nat i))"

text \<open>
  \<open>int(s)\<close> for a string, base 10. The literal is an optional sign and then decimal
  digits, in which single underscores may stand between two digits; white space may
  stand before and after it. The white space of \<open>int\<close> is not that of \<open>isspace\<close>:
  it is \<open>0x09\<close> to \<open>0x0D\<close> and the space, and the two Latin-1 spaces \<open>0x85\<close> and
  \<open>0xA0\<close>, which \<open>int\<close> replaces by a space before it reads the string; the
  separators \<open>0x1C\<close> to \<open>0x1F\<close> are not skipped. \<open>int_literal\<close> is the value of a
  well-formed string, and \<open>None\<close> for any other.
\<close>

definition digit_val :: "char \<Rightarrow> int" where
  "digit_val c = int (code c) - 48"

fun int_digits :: "int \<Rightarrow> string \<Rightarrow> int option" where
  "int_digits acc [] = Some acc"
| "int_digits acc (c # cs) =
     (if isdecimal c then int_digits (acc * 10 + digit_val c) cs
      else if c = CHR ''_'' then
        (case cs of
           [] \<Rightarrow> None
         | d # ds \<Rightarrow> if isdecimal d then int_digits (acc * 10 + digit_val d) ds else None)
      else None)"

definition int_unsigned :: "string \<Rightarrow> int option" where
  "int_unsigned s =
     (case s of
        [] \<Rightarrow> None
      | c # cs \<Rightarrow> if isdecimal c then int_digits (digit_val c) cs else None)"

definition int_space :: "char \<Rightarrow> bool" where
  "int_space c = (code c \<in> {9, 10, 11, 12, 13, 32, 133, 160})"

definition int_strip :: "string \<Rightarrow> string" where
  "int_strip s = rev (dropWhile int_space (rev (dropWhile int_space s)))"

definition int_literal :: "string \<Rightarrow> int option" where
  "int_literal s =
     (case int_strip s of
        [] \<Rightarrow> None
      | c # cs \<Rightarrow>
          if c = CHR ''-'' then map_option uminus (int_unsigned cs)
          else if c = CHR ''+'' then int_unsigned cs
          else int_unsigned (c # cs))"

text \<open>
  The interpreter limits the number of digits of a literal: with the limit
  \<open>maxdigits\<close> (4300 unless the interpreter is told otherwise, 0 for no limit, which is
  also how an interpreter older than the limit behaves), a literal of more than 640 and
  more than \<open>maxdigits\<close> digits raises \<open>ValueError\<close>. The digits are counted over the
  run of digits and underscores that follows the leading white space and the sign, and a
  well-formed run over the limit is refused before the rest of the string is looked at.
  The result of \<open>int\<close> is a value, the refusal of a malformed string, or the refusal of
  a run of \<open>n\<close> digits for its length.
\<close>

datatype int_result = Int_value int | Invalid_literal | Too_many_digits nat

definition over_limit :: "nat \<Rightarrow> nat \<Rightarrow> bool" where
  "over_limit maxdigits n = (640 < n \<and> 0 < maxdigits \<and> maxdigits < n)"

definition digit_run :: "string \<Rightarrow> string" where
  "digit_run s =
     (let t = dropWhile int_space s;
          u = (case t of
                 [] \<Rightarrow> []
               | c # cs \<Rightarrow> if c = CHR ''-'' \<or> c = CHR ''+'' then cs else t)
      in takeWhile (\<lambda>c. isdecimal c \<or> c = CHR ''_'') u)"

definition int_parse :: "nat \<Rightarrow> string \<Rightarrow> int_result" where
  "int_parse maxdigits s =
     (let n = length (filter isdecimal (digit_run s)) in
      if int_unsigned (digit_run s) \<noteq> None \<and> over_limit maxdigits n then Too_many_digits n
      else (case int_literal s of
              None \<Rightarrow> Invalid_literal
            | Some v \<Rightarrow> Int_value v))"

text \<open>\<open>int(s)\<close> where the source catches the \<open>ValueError\<close>: \<open>None\<close> for either
  refusal.\<close>

definition py_int :: "nat \<Rightarrow> string \<Rightarrow> int option" where
  "py_int maxdigits s =
     (case int_parse maxdigits s of
        Int_value v \<Rightarrow> Some v
      | Invalid_literal \<Rightarrow> None
      | Too_many_digits n \<Rightarrow> None)"

section \<open>The module board\_util\<close>

text \<open>
  The module \<open>board_util\<close> is imported by the source and not part of it. Its colour
  codes, its bound \<open>MAXSIZE\<close> and its function \<open>coord_to_point\<close> are parameters of
  the model, the fields of a record \<open>U\<close>. The record also holds what the source
  takes from the interpreter it runs on: its limit on the digits of an integer in a
  conversion from or to a string, \<open>max_str_digits\<close>, which is the value of
  \<open>sys.get_int_max_str_digits()\<close> (0 where there is no limit), and the texts of the
  \<open>ValueError\<close> it raises over the limit, which vary between versions:
  \<open>max_str_digits_error n\<close> for a literal of \<open>n\<close> digits given to \<open>int\<close>, and
  \<open>max_str_digits_str_error\<close> for an integer given to \<open>str\<close>.
\<close>

record board_util =
  BLACK :: int
  WHITE :: int
  EMPTY :: int
  BORDER :: int
  MAXSIZE :: int
  coord_to_point :: "int \<Rightarrow> int \<Rightarrow> int \<Rightarrow> int"
  max_str_digits :: nat
  max_str_digits_error :: "nat \<Rightarrow> string"
  max_str_digits_str_error :: string

text \<open>
  Modelled from the spec: \<open>PASS\<close>, a constant of the missing module \<open>board_util\<close>,
  is the Pass-sentinel, the reserved value that denotes no board position. It is no
  integer and no pair, and like Python's \<open>None\<close> it counts as false in a condition. A
  point is therefore an \<open>int option\<close>, \<open>None\<close> being \<open>PASS\<close>, and a coordinate
  value, as the source passes it around, is a \<open>move\<close>: \<open>PASS\<close>, a pair
  \<open>(row, col)\<close>, or the \<open>False\<close> that \<open>move_to_coord\<close> returns for an invalid
  string.
\<close>

datatype move = Pass | Coord int int | Invalid

section \<open>Coordinate functions\<close>

text \<open>\<open>divmod\<close> is the floor division of Python, which is \<open>div\<close> and \<open>mod\<close> on
  \<open>int\<close>; for a board size of -1 the divisor is 0 and a Python integer raises.\<close>

definition point_to_coord :: "int option \<Rightarrow> int \<Rightarrow> exc + move" where
  "point_to_coord point boardsize =
     (case point of
        None \<Rightarrow> Inr Pass
      | Some p \<Rightarrow>
          (let NS = boardsize + 1 in
           if NS = 0 then Inl (ZeroDivisionError ''integer division or modulo by zero'')
           else Inr (Coord (p div NS) (p mod NS))))"

definition column_letters :: string where
  "column_letters = ''ABCDEFGHJKLMNOPQRSTUVWXYZ''"

text \<open>Indexing a string, with Python's reading of a negative index.\<close>

definition str_index :: "string \<Rightarrow> int \<Rightarrow> exc + char" where
  "str_index s i =
     (let n = int (length s); j = (if i < 0 then n + i else i) in
      if 0 \<le> j \<and> j < n then Inr (s ! nat j)
      else Inl (IndexError ''string index out of range''))"

text \<open>\<open>format_point\<close> calls \<open>str\<close> on a row that it has found below
  \<open>MAXSIZE\<close>, so of at most two digits: the limit on the digits does not come into
  it.\<close>

definition format_point :: "board_util \<Rightarrow> move \<Rightarrow> exc + string" where
  "format_point U mv =
     (if \<not> MAXSIZE U \<le> 25 then Inl AssertionError
      else (case mv of
        Pass \<Rightarrow> Inr ''PASS''
      | Invalid \<Rightarrow> Inl (TypeError ''cannot unpack non-iterable bool object'')
      | Coord row col \<Rightarrow>
          if \<not> (0 \<le> row \<and> row < MAXSIZE U) \<or> \<not> (0 \<le> col \<and> col < MAXSIZE U)
          then Inl (ValueError [])
          else (case str_index column_letters (col - 1) of
                  Inl e \<Rightarrow> Inl e
                | Inr ch \<Rightarrow> Inr (ch # str_int row))))"

definition move_to_coord :: "board_util \<Rightarrow> string \<Rightarrow> int \<Rightarrow> exc + move" where
  "move_to_coord U point_str board_size =
     (if \<not> (2 \<le> board_size \<and> board_size \<le> MAXSIZE U)
      then Inl (ValueError ''board_size out of range'')
      else
        let s = lower point_str in
        if s = ''pass'' then Inr Pass
        else (case s of
          [] \<Rightarrow> Inr Invalid
        | col_c # rest \<Rightarrow>
            if \<not> (97 \<le> code col_c \<and> code col_c \<le> 122) \<or> col_c = CHR ''i''
            then Inr Invalid
            else
              let col0 = int (code col_c) - 97;
                  col = (if code col_c < 105 then col0 + 1 else col0)
              in (case py_int (max_str_digits U) rest of
                    None \<Rightarrow> Inr Invalid
                  | Some row \<Rightarrow>
                      if row < 1 then Inr Invalid
                      else if \<not> (col \<le> board_size \<and> row \<le> board_size) then Inr Invalid
                      else Inr (Coord row col))))"

definition color_to_int :: "board_util \<Rightarrow> string \<Rightarrow> exc + int" where
  "color_to_int U c =
     (if c = ''b'' then Inr (BLACK U)
      else if c = ''w'' then Inr (WHITE U)
      else if c = ''e'' then Inr (EMPTY U)
      else if c = ''BORDER'' then Inr (BORDER U)
      else Inl (KeyError c))"

text \<open>\<open>repr(s)\<close>, as it appears in the message of a \<open>KeyError\<close> and of the
  \<open>ValueError\<close> of \<open>int\<close>: the characters that are not printable, which are those
  below \<open>0x20\<close>, from \<open>0x7F\<close> to \<open>0xA0\<close> and \<open>0xAD\<close>, are written as escapes.\<close>

definition hex_digit :: "nat \<Rightarrow> char" where
  "hex_digit d = (if d < 10 then char_of (48 + d) else char_of (87 + d))"

definition repr_char :: "char \<Rightarrow> char \<Rightarrow> string" where
  "repr_char q c =
     (if c = q \<or> c = CHR 0x5C then [CHR 0x5C, c]
      else if c = CHR 0x09 then [CHR 0x5C, CHR ''t'']
      else if c = CHR 0x0A then [CHR 0x5C, CHR ''n'']
      else if c = CHR 0x0D then [CHR 0x5C, CHR ''r'']
      else if code c < 32 \<or> (127 \<le> code c \<and> code c \<le> 160) \<or> code c = 173
        then [CHR 0x5C, CHR ''x'', hex_digit (code c div 16), hex_digit (code c mod 16)]
      else [c])"

definition repr :: "string \<Rightarrow> string" where
  "repr s =
     (let q = (if CHR 0x27 \<in> set s \<and> CHR 0x22 \<notin> set s then CHR 0x22 else CHR 0x27)
      in [q] @ concat (map (repr_char q) s) @ [q])"

fun str_exc :: "exc \<Rightarrow> string" where
  "str_exc (KeyError k) = repr k"
| "str_exc (IndexError m) = m"
| "str_exc (ValueError m) = m"
| "str_exc (TypeError m) = m"
| "str_exc (ZeroDivisionError m) = m"
| "str_exc AssertionError = []"
| "str_exc SystemExit = ''None''"

text \<open>\<open>xs[i]\<close> for a list and a non-negative index, \<open>xs.remove(x)\<close>,
  \<open>sep.join(xs)\<close>, \<open>s.split()\<close> and \<open>s.strip(chars)\<close>.\<close>

definition list_index :: "'a list \<Rightarrow> nat \<Rightarrow> exc + 'a" where
  "list_index xs i =
     (if i < length xs then Inr (xs ! i) else Inl (IndexError ''list index out of range''))"

definition list_remove :: "int list \<Rightarrow> int option \<Rightarrow> exc + int list" where
  "list_remove xs x =
     (case x of
        None \<Rightarrow> Inl (ValueError ''list.remove(x): x not in list'')
      | Some p \<Rightarrow>
          if p \<in> set xs then Inr (remove1 p xs)
          else Inl (ValueError ''list.remove(x): x not in list''))"

fun join :: "string \<Rightarrow> string list \<Rightarrow> string" where
  "join sep [] = []"
| "join sep [x] = x"
| "join sep (x # y # ys) = x @ sep @ join sep (y # ys)"

fun split_from :: "string \<Rightarrow> string \<Rightarrow> string list" where
  "split_from w [] = (if w = [] then [] else [w])"
| "split_from w (c # cs) =
     (if isspace c then (if w = [] then split_from [] cs else w # split_from [] cs)
      else split_from (w @ [c]) cs)"

definition split :: "string \<Rightarrow> string list" where
  "split s = split_from [] s"

definition strip_chars :: "string \<Rightarrow> string \<Rightarrow> string" where
  "strip_chars chars s =
     rev (dropWhile (\<lambda>c. c \<in> set chars) (rev (dropWhile (\<lambda>c. c \<in> set chars) s)))"

text \<open>The first error of a sequence of computations, left to right, as a loop whose
  body may raise.\<close>

fun map_exc :: "('a \<Rightarrow> exc + 'b) \<Rightarrow> 'a list \<Rightarrow> exc + 'b list" where
  "map_exc f [] = Inr []"
| "map_exc f (x # xs) =
     (case f x of
        Inl e \<Rightarrow> Inl e
      | Inr y \<Rightarrow> (case map_exc f xs of Inl e \<Rightarrow> Inl e | Inr ys \<Rightarrow> Inr (y # ys)))"

section \<open>The collaborators: board and engine\<close>

text \<open>
  The board class, \<open>GoBoardUtil\<close>, the engine and the Python run time are not part of
  the source: the model takes what the source calls of them as parameters, one record
  \<open>C\<close>. A board state has type \<open>'b\<close>, an engine state type \<open>'e\<close>.
  The queries (\<open>size\<close>, \<open>current_player\<close>, \<open>get_empty_points\<close>, \<open>get_color\<close>,
  \<open>is_legal\<close>, \<open>check_suicide\<close>, \<open>row_start\<close>, the read of the array
  \<open>board.board\<close>, the rendering \<open>str(GoBoardUtil.get_twoD_board(board))\<close>,
  \<open>get_move\<close>) read a board state and return; \<open>play_move\<close> and \<open>reset\<close> return the
  new state of the board object they are called on. A point argument is an
  \<open>int option\<close>, \<open>None\<close> being \<open>PASS\<close>. \<open>set_komi\<close> is the assignment
  \<open>go_engine.komi = float(text)\<close>, \<open>format_exc\<close> the text of
  \<open>traceback.format_exc()\<close> for the exception being handled.
\<close>

record ('b, 'e) collab =
  util :: board_util
  bsize :: "'b \<Rightarrow> int"
  current_player :: "'b \<Rightarrow> int"
  board_cell :: "'b \<Rightarrow> int \<Rightarrow> exc + int"
  row_start :: "'b \<Rightarrow> int \<Rightarrow> int"
  reset :: "'b \<Rightarrow> int \<Rightarrow> 'b"
  get_empty_points :: "'b \<Rightarrow> int list"
  get_color :: "'b \<Rightarrow> int \<Rightarrow> int"
  is_legal :: "'b \<Rightarrow> int option \<Rightarrow> int \<Rightarrow> bool"
  check_suicide :: "'b \<Rightarrow> int \<Rightarrow> int \<Rightarrow> bool"
  play_move :: "'b \<Rightarrow> int option \<Rightarrow> int \<Rightarrow> bool \<times> 'b"
  twoD_board :: "'b \<Rightarrow> string"
  engine_name :: "'e \<Rightarrow> string"
  engine_version :: "'e \<Rightarrow> string"
  set_komi :: "'e \<Rightarrow> string \<Rightarrow> exc + 'e"
  get_move :: "'e \<Rightarrow> 'b \<Rightarrow> int \<Rightarrow> int option"
  format_exc :: "exc \<Rightarrow> string"

section \<open>The session\<close>

text \<open>
  Board objects live in a store: \<open>objects s r\<close> is the state of the board object with
  reference \<open>r\<close>, and \<open>next_ref s\<close> the first reference not yet given out.
  \<open>board s\<close> is the reference the session holds (\<open>self.board\<close>). The output streams
  are the lists of the strings written to them, oldest first.
\<close>

record ('b, 'e) session =
  debug_mode :: bool
  go_engine :: 'e
  board :: nat
  objects :: "nat \<Rightarrow> 'b"
  next_ref :: nat
  stdout :: "string list"
  stderr :: "string list"

definition live :: "('b, 'e) session \<Rightarrow> 'b" where
  "live s = objects s (board s)"

definition set_live :: "'b \<Rightarrow> ('b, 'e) session \<Rightarrow> ('b, 'e) session" where
  "set_live b s = s\<lparr>objects := (objects s)(board s := b)\<rparr>"

text \<open>\<open>board.copy()\<close>: a new object with the state of the one copied.\<close>

definition copy_board :: "nat \<Rightarrow> ('b, 'e) session \<Rightarrow> nat \<times> ('b, 'e) session" where
  "copy_board r s =
     (next_ref s, s\<lparr>objects := (objects s)(next_ref s := objects s r), next_ref := Suc (next_ref s)\<rparr>)"

type_synonym ('b, 'e) handler =
  "string list \<Rightarrow> ('b, 'e) session \<Rightarrow> exc option \<times> ('b, 'e) session"

definition debug_msg :: "string \<Rightarrow> ('b, 'e) session \<Rightarrow> ('b, 'e) session" where
  "debug_msg msg s = (if debug_mode s then s\<lparr>stderr := stderr s @ [msg]\<rparr> else s)"

definition error :: "string \<Rightarrow> ('b, 'e) session \<Rightarrow> ('b, 'e) session" where
  "error error_msg s = s\<lparr>stdout := stdout s @ [''? '' @ error_msg @ [CHR 0x0A, CHR 0x0A]]\<rparr>"

definition respond :: "string \<Rightarrow> ('b, 'e) session \<Rightarrow> ('b, 'e) session" where
  "respond response s = s\<lparr>stdout := stdout s @ [''= '' @ response @ [CHR 0x0A, CHR 0x0A]]\<rparr>"

section \<open>Administrative commands\<close>

definition command_names :: "string list" where
  "command_names =
     [''protocol_version'', ''quit'', ''name'', ''boardsize'', ''showboard'', ''clear_board'',
      ''komi'', ''version'', ''known_command'', ''genmove'', ''list_commands'', ''play'',
      ''gogui-rules_legal_moves'', ''gogui-rules_final_result'', ''gogui-rules_side_to_move'',
      ''gogui-rules_game_id'', ''gogui-rules_board'', ''gogui-analyze_commands'',
      ''gogui-rules_board_size'']"

definition argmap :: "(string \<times> int \<times> string) list" where
  "argmap =
     [(''boardsize'', 1, ''Usage: boardsize INT''),
      (''komi'', 1, ''Usage: komi FLOAT''),
      (''known_command'', 1, ''Usage: known_command CMD_NAME''),
      (''genmove'', 1, ''Usage: genmove {w,b}''),
      (''play'', 2, ''Usage: play {b,w} MOVE''),
      (''legal_moves'', 1, ''Usage: legal_moves {w,b}'')]"

definition has_arg_error :: "string \<Rightarrow> int \<Rightarrow> ('b, 'e) session \<Rightarrow> bool \<times> ('b, 'e) session" where
  "has_arg_error cmd argnum s =
     (case map_of argmap cmd of
        None \<Rightarrow> (False, s)
      | Some (n, msg) \<Rightarrow> if n \<noteq> argnum then (True, error msg s) else (False, s))"

definition board2d :: "('b, 'e) collab \<Rightarrow> ('b, 'e) session \<Rightarrow> string" where
  "board2d C s = twoD_board C (live s)"

definition protocol_version_cmd :: "('b, 'e) handler" where
  "protocol_version_cmd args s = (None, respond ''2'' s)"

definition quit_cmd :: "('b, 'e) handler" where
  "quit_cmd args s = (Some SystemExit, respond [] s)"

definition name_cmd :: "('b, 'e) collab \<Rightarrow> ('b, 'e) handler" where
  "name_cmd C args s = (None, respond (engine_name C (go_engine s)) s)"

definition version_cmd :: "('b, 'e) collab \<Rightarrow> ('b, 'e) handler" where
  "version_cmd C args s = (None, respond (engine_version C (go_engine s)) s)"

definition clear_board_cmd :: "('b, 'e) collab \<Rightarrow> ('b, 'e) handler" where
  "clear_board_cmd C args s =
     (None, respond [] (set_live (reset C (live s) (bsize C (live s))) s))"

definition int_arg :: "board_util \<Rightarrow> string \<Rightarrow> exc + int" where
  "int_arg U a =
     (case int_parse (max_str_digits U) a of
        Int_value n \<Rightarrow> Inr n
      | Invalid_literal \<Rightarrow>
          Inl (ValueError (''invalid literal for int() with base 10: '' @ take 200 (repr a)))
      | Too_many_digits n \<Rightarrow> Inl (ValueError (max_str_digits_error U n)))"

definition boardsize_cmd :: "('b, 'e) collab \<Rightarrow> ('b, 'e) handler" where
  "boardsize_cmd C args s =
     (case list_index args 0 of
        Inl e \<Rightarrow> (Some e, s)
      | Inr a0 \<Rightarrow>
          (case int_arg (util C) a0 of
             Inl e \<Rightarrow> (Some e, s)
           | Inr n \<Rightarrow> (None, respond [] (set_live (reset C (live s) n) s))))"

definition showboard_cmd :: "('b, 'e) collab \<Rightarrow> ('b, 'e) handler" where
  "showboard_cmd C args s = (None, respond ([CHR 0x0A] @ board2d C s) s)"

definition komi_cmd :: "('b, 'e) collab \<Rightarrow> ('b, 'e) handler" where
  "komi_cmd C args s =
     (case list_index args 0 of
        Inl e \<Rightarrow> (Some e, s)
      | Inr a0 \<Rightarrow>
          (case set_komi C (go_engine s) a0 of
             Inl e \<Rightarrow> (Some e, s)
           | Inr g \<Rightarrow> (None, respond [] (s\<lparr>go_engine := g\<rparr>))))"

definition known_command_cmd :: "('b, 'e) handler" where
  "known_command_cmd args s =
     (case list_index args 0 of
        Inl e \<Rightarrow> (Some e, s)
      | Inr a0 \<Rightarrow>
          if a0 \<in> set command_names then (None, respond ''true'' s)
          else (None, respond ''false'' s))"

definition list_commands_cmd :: "('b, 'e) handler" where
  "list_commands_cmd args s = (None, respond (join '' '' command_names) s)"

definition gogui_analyze_cmd :: "('b, 'e) handler" where
  "gogui_analyze_cmd args s =
     (None, respond
        (''pstring/Legal Moves For ToPlay/gogui-rules_legal_moves'' @ [CHR 0x0A] @
         ''pstring/Side to Play/gogui-rules_side_to_move'' @ [CHR 0x0A] @
         ''pstring/Final Result/gogui-rules_final_result'' @ [CHR 0x0A] @
         ''pstring/Board Size/gogui-rules_board_size'' @ [CHR 0x0A] @
         ''pstring/Rules GameID/gogui-rules_game_id'' @ [CHR 0x0A] @
         ''pstring/Show Board/gogui-rules_board'' @ [CHR 0x0A]) s)"

definition gogui_rules_game_id_cmd :: "('b, 'e) handler" where
  "gogui_rules_game_id_cmd args s = (None, respond ''NoGo'' s)"

text \<open>\<open>str(n)\<close> under the interpreter's limit: an integer of more digits than the
  limit, the sign not counted, raises \<open>ValueError\<close>.\<close>

definition str_limited :: "board_util \<Rightarrow> int \<Rightarrow> exc + string" where
  "str_limited U i =
     (if over_limit (max_str_digits U) (length (str_nat (nat \<bar>i\<bar>)))
      then Inl (ValueError (max_str_digits_str_error U))
      else Inr (str_int i))"

definition gogui_rules_board_size_cmd :: "('b, 'e) collab \<Rightarrow> ('b, 'e) handler" where
  "gogui_rules_board_size_cmd C args s =
     (case str_limited (util C) (bsize C (live s)) of
        Inl e \<Rightarrow> (Some e, s)
      | Inr size_text \<Rightarrow> (None, respond size_text s))"

definition gogui_rules_side_to_move_cmd :: "('b, 'e) collab \<Rightarrow> ('b, 'e) handler" where
  "gogui_rules_side_to_move_cmd C args s =
     (let color = (if current_player C (live s) = BLACK (util C) then ''black'' else ''white'')
      in (None, respond color s))"

definition board_char :: "('b, 'e) collab \<Rightarrow> 'b \<Rightarrow> int \<Rightarrow> exc + char" where
  "board_char C b i =
     (case board_cell C b i of
        Inl e \<Rightarrow> Inl e
      | Inr point \<Rightarrow>
          if point = BLACK (util C) then Inr (CHR ''X'')
          else if point = WHITE (util C) then Inr (CHR ''O'')
          else if point = EMPTY (util C) then Inr (CHR ''.'')
          else Inl AssertionError)"

definition board_row :: "('b, 'e) collab \<Rightarrow> 'b \<Rightarrow> int \<Rightarrow> exc + string" where
  "board_row C b row =
     (let start = row_start C b (row + 1) in
      case map_exc (\<lambda>i. board_char C b (start + i)) [0 .. bsize C b - 1] of
        Inl e \<Rightarrow> Inl e
      | Inr cs \<Rightarrow> Inr (cs @ [CHR 0x0A]))"

definition gogui_rules_board_cmd :: "('b, 'e) collab \<Rightarrow> ('b, 'e) handler" where
  "gogui_rules_board_cmd C args s =
     (case map_exc (board_row C (live s)) (rev [0 .. bsize C (live s) - 1]) of
        Inl e \<Rightarrow> (Some e, s)
      | Inr rows \<Rightarrow> (None, respond (concat rows) s))"

section \<open>Capture detection and legal moves\<close>

definition capture_detection ::
  "('b, 'e) collab \<Rightarrow> int option \<Rightarrow> int \<Rightarrow> ('b, 'e) session \<Rightarrow> (exc + bool) \<times> ('b, 'e) session" where
  "capture_detection C point color s =
     (let (monitor_board, s1) = copy_board (board s) s;
          empty_points_original = get_empty_points C (live s1);
          (applied, b') = play_move C (objects s1 monitor_board) point color;
          s2 = s1\<lparr>objects := (objects s1)(monitor_board := b')\<rparr>;
          monitor_points_after = get_empty_points C (objects s2 monitor_board)
      in case list_remove empty_points_original point of
           Inl e \<Rightarrow> (Inl e, s2)
         | Inr tmp_list_original \<Rightarrow>
             if tmp_list_original = monitor_points_after then (Inr False, s2)
             else (Inr True, s2))"

text \<open>The loop of \<open>legal_move_helper\<close> and of \<open>gogui_rules_legal_moves_cmd\<close>:
  \<open>return_list\<close> is the list built so far.\<close>

fun legal_loop ::
  "('b, 'e) collab \<Rightarrow> int \<Rightarrow> int list \<Rightarrow> int list \<Rightarrow> ('b, 'e) session
     \<Rightarrow> (exc + int list) \<times> ('b, 'e) session" where
  "legal_loop C color [] return_list s = (Inr return_list, s)"
| "legal_loop C color (point # rest) return_list s =
     (let legal_status = is_legal C (live s) (Some point) color in
      if legal_status then
        (case capture_detection C (Some point) color s of
           (Inl e, s1) \<Rightarrow> (Inl e, s1)
         | (Inr captured, s1) \<Rightarrow>
             if \<not> captured then legal_loop C color rest (return_list @ [point]) s1
             else legal_loop C color rest return_list s1)
      else legal_loop C color rest return_list s)"

definition legal_move_helper ::
  "('b, 'e) collab \<Rightarrow> ('b, 'e) session \<Rightarrow> (exc + int list) \<times> ('b, 'e) session" where
  "legal_move_helper C s =
     (let all_emptys = get_empty_points C (live s);
          color = current_player C (live s)
      in legal_loop C color all_emptys [] s)"

definition format_legal_point :: "('b, 'e) collab \<Rightarrow> 'b \<Rightarrow> int \<Rightarrow> exc + string" where
  "format_legal_point C b point =
     (case point_to_coord (Some point) (bsize C b) of
        Inl e \<Rightarrow> Inl e
      | Inr coord \<Rightarrow> format_point (util C) coord)"

text \<open>\<open>return_list.sort(key=lambda x: x[0])\<close>: a stable sort on the first character;
  taking the key of an empty string raises.\<close>

definition sort_first_char :: "string list \<Rightarrow> exc + string list" where
  "sort_first_char xs =
     (if [] \<in> set xs then Inl (IndexError ''string index out of range'')
      else Inr (sort_key (\<lambda>x. code (hd x)) xs))"

text \<open>\<open>gogui_rules_legal_moves_cmd\<close> in two parts: the loop that collects the points,
  and the formatting, sorting and response.\<close>

definition gogui_rules_legal_moves_points ::
  "('b, 'e) collab \<Rightarrow> ('b, 'e) session \<Rightarrow> (exc + int list) \<times> ('b, 'e) session" where
  "gogui_rules_legal_moves_points C s =
     (let all_emptys = get_empty_points C (live s);
          color = current_player C (live s)
      in legal_loop C color all_emptys [] s)"

definition gogui_rules_legal_moves_cmd :: "('b, 'e) collab \<Rightarrow> ('b, 'e) handler" where
  "gogui_rules_legal_moves_cmd C args s =
     (case gogui_rules_legal_moves_points C s of
        (Inl e, s1) \<Rightarrow> (Some e, s1)
      | (Inr return_list, s1) \<Rightarrow>
          (case map_exc (format_legal_point C (live s1)) return_list of
             Inl e \<Rightarrow> (Some e, s1)
           | Inr formatted \<Rightarrow>
               (case sort_first_char formatted of
                  Inl e \<Rightarrow> (Some e, s1)
                | Inr sorted_list \<Rightarrow> (None, respond (join '' '' sorted_list) s1))))"

definition gogui_rules_final_result_cmd :: "('b, 'e) collab \<Rightarrow> ('b, 'e) handler" where
  "gogui_rules_final_result_cmd C args s =
     (case legal_move_helper C s of
        (Inl e, s1) \<Rightarrow> (Some e, s1)
      | (Inr moves, s1) \<Rightarrow>
          if length moves = 0 then
            (if current_player C (live s1) = 1 then (None, respond ''white'' s1)
             else (None, respond ''black'' s1))
          else (None, respond ''unknown'' s1))"

section \<open>The play and genmove commands\<close>

definition color_checker :: "('b, 'e) collab \<Rightarrow> int \<Rightarrow> ('b, 'e) session \<Rightarrow> bool" where
  "color_checker C input_color s =
     (if input_color \<noteq> current_player C (live s) then False else True)"

definition coordinate_checker :: "string \<Rightarrow> string \<Rightarrow> exc + bool" where
  "coordinate_checker color point =
     (case str_index point 0 of
        Inl e \<Rightarrow> Inl e
      | Inr row \<Rightarrow>
          (case str_index point 1 of
             Inl e \<Rightarrow> Inl e
           | Inr column \<Rightarrow> if \<not> isdigit column then Inr False else Inr True))"

definition occupied_checker :: "('b, 'e) collab \<Rightarrow> int \<Rightarrow> ('b, 'e) session \<Rightarrow> bool" where
  "occupied_checker C point s = (if get_color C (live s) point \<noteq> 0 then False else True)"

definition illegal_move :: "string \<Rightarrow> string \<Rightarrow> string \<Rightarrow> string" where
  "illegal_move a0 a1 reason =
     ''illegal move: '' @ [CHR 0x22] @ a0 @ '' '' @ a1 @ [CHR 0x22] @ '' '' @ reason"

text \<open>The body of the \<open>try\<close> of \<open>play_cmd\<close>: the result is the exception it raises,
  if any, and the session as the body leaves it.\<close>

definition play_try :: "('b, 'e) collab \<Rightarrow> ('b, 'e) handler" where
  "play_try C args s =
     (case list_index args 0 of
        Inl e \<Rightarrow> (Some e, s)
      | Inr a0 \<Rightarrow>
     (case list_index args 1 of
        Inl e \<Rightarrow> (Some e, s)
      | Inr board_move \<Rightarrow>
     (case color_to_int (util C) (lower a0) of
        Inl e \<Rightarrow> (Some e, s)
      | Inr color \<Rightarrow>
     if \<not> color_checker C color s
     then (None, respond (illegal_move a0 board_move ''wrong color'') s)
     else
     (case coordinate_checker a0 board_move of
        Inl e \<Rightarrow> (Some e, s)
      | Inr coordinate_validity \<Rightarrow>
     if \<not> coordinate_validity
     then (None, respond (illegal_move a0 board_move ''wrong coordinate'') s)
     else
     (case move_to_coord (util C) board_move (bsize C (live s)) of
        Inl e \<Rightarrow> (Some e, s)
      | Inr Pass \<Rightarrow> (None, respond (illegal_move a0 board_move ''wrong coordinate'') s)
      | Inr Invalid \<Rightarrow> (None, respond (illegal_move a0 board_move ''wrong coordinate'') s)
      | Inr (Coord row col) \<Rightarrow>
     (let move = coord_to_point (util C) row col (bsize C (live s)) in
      if \<not> occupied_checker C move s
      then (None, respond (illegal_move a0 board_move ''occupied'') s)
      else if check_suicide C (live s) move color
      then (None, respond (illegal_move a0 board_move ''suicide'') s)
      else
        (case capture_detection C (Some move) (current_player C (live s)) s of
           (Inl e, s1) \<Rightarrow> (Some e, s1)
         | (Inr captured, s1) \<Rightarrow>
             if captured
             then (None, respond (illegal_move a0 board_move ''capture'') s1)
             else
               (let (applied, b') = play_move C (live s1) (Some move) color;
                    s2 = set_live b' s1;
                    s3 = (if \<not> applied
                          then debug_msg (''Move: '' @ board_move @ [CHR 0x0A] @ ''Board:'' @
                                           [CHR 0x0A] @ board2d C s2 @ [CHR 0x0A]) s2
                          else s2)
                in (None, respond [] s3)))))))))"

definition play_cmd :: "('b, 'e) collab \<Rightarrow> ('b, 'e) handler" where
  "play_cmd C args s =
     (case play_try C args s of
        (None, s1) \<Rightarrow> (None, s1)
      | (Some e, s1) \<Rightarrow>
          if is_Exception e then (None, respond (''Error: '' @ str_exc e) s1)
          else (Some e, s1))"

definition genmove_cmd :: "('b, 'e) collab \<Rightarrow> ('b, 'e) handler" where
  "genmove_cmd C args s =
     (case list_index args 0 of
        Inl e \<Rightarrow> (Some e, s)
      | Inr a0 \<Rightarrow>
     (case color_to_int (util C) (lower a0) of
        Inl e \<Rightarrow> (Some e, s)
      | Inr color \<Rightarrow>
     (let move = get_move C (go_engine s) (live s) color in
     (case point_to_coord move (bsize C (live s)) of
        Inl e \<Rightarrow> (Some e, s)
      | Inr move_coord \<Rightarrow>
     (case format_point (util C) move_coord of
        Inl e \<Rightarrow> (Some e, s)
      | Inr move_as_string \<Rightarrow>
     (case color_to_int (util C) a0 of
        Inl e \<Rightarrow> (Some e, s)
      | Inr color' \<Rightarrow>
     if color' \<noteq> current_player C (live s)
     then (None, respond (''illegal move: '' @ [CHR 0x22] @ a0 @ [CHR 0x22] @ '' wrong color'') s)
     else if is_legal C (live s) move color
     then
       (case capture_detection C move color s of
          (Inl e, s1) \<Rightarrow> (Some e, s1)
        | (Inr captured, s1) \<Rightarrow>
            if \<not> captured
            then (None, respond move_as_string
                          (set_live (snd (play_move C (live s1) move color)) s1))
            else (None, respond ''resign'' s1))
     else (None, respond (''Illegal move: '' @ move_as_string) s)))))))"

section \<open>The command table and the command loop\<close>

definition commands :: "('b, 'e) collab \<Rightarrow> (string \<times> ('b, 'e) handler) list" where
  "commands C =
     [(''protocol_version'', protocol_version_cmd),
      (''quit'', quit_cmd),
      (''name'', name_cmd C),
      (''boardsize'', boardsize_cmd C),
      (''showboard'', showboard_cmd C),
      (''clear_board'', clear_board_cmd C),
      (''komi'', komi_cmd C),
      (''version'', version_cmd C),
      (''known_command'', known_command_cmd),
      (''genmove'', genmove_cmd C),
      (''list_commands'', list_commands_cmd),
      (''play'', play_cmd C),
      (''gogui-rules_legal_moves'', gogui_rules_legal_moves_cmd C),
      (''gogui-rules_final_result'', gogui_rules_final_result_cmd C),
      (''gogui-rules_side_to_move'', gogui_rules_side_to_move_cmd C),
      (''gogui-rules_game_id'', gogui_rules_game_id_cmd),
      (''gogui-rules_board'', gogui_rules_board_cmd C),
      (''gogui-analyze_commands'', gogui_analyze_cmd),
      (''gogui-rules_board_size'', gogui_rules_board_size_cmd C)]"

text \<open>What \<open>get_cmd\<close> does with the exception \<open>e\<close> a handler raised: the
  \<open>except Exception\<close> clause logs and raises again; an exception outside that class
  passes through.\<close>

definition log_and_raise ::
  "('b, 'e) collab \<Rightarrow> exc \<Rightarrow> ('b, 'e) session \<Rightarrow> exc option \<times> ('b, 'e) session" where
  "log_and_raise C e s =
     (if is_Exception e
      then (Some e,
            debug_msg (''Stack Trace:'' @ [CHR 0x0A] @ format_exc C e @ [CHR 0x0A])
              (debug_msg (''Error executing command '' @ str_exc e @ [CHR 0x0A]) s))
      else (Some e, s))"

text \<open>\<open>get_cmd\<close> from the test \<open>if not elements\<close> on: the tokens of the line are
  \<open>elements\<close>.\<close>

definition run_elements ::
  "('b, 'e) collab \<Rightarrow> string list \<Rightarrow> ('b, 'e) session \<Rightarrow> exc option \<times> ('b, 'e) session" where
  "run_elements C elements s =
     (case elements of
        [] \<Rightarrow> (None, s)
      | command_name # args \<Rightarrow>
     (case has_arg_error command_name (int (length args)) s of
        (True, s1) \<Rightarrow> (None, s1)
      | (False, s1) \<Rightarrow>
     (case map_of (commands C) command_name of
        Some h \<Rightarrow>
          (case h args s1 of
             (None, s2) \<Rightarrow> (None, s2)
           | (Some e, s2) \<Rightarrow> log_and_raise C e s2)
      | None \<Rightarrow>
          (None, error ''Unknown command''
                   (debug_msg (''Unknown command: '' @ command_name @ [CHR 0x0A]) s1)))))"

definition get_cmd ::
  "('b, 'e) collab \<Rightarrow> string \<Rightarrow> ('b, 'e) session \<Rightarrow> exc option \<times> ('b, 'e) session" where
  "get_cmd C command s =
     (if length (strip_chars [CHR '' '', CHR 0x0D, CHR 0x09] command) = 0 then (None, s)
      else
      (case command of
         [] \<Rightarrow> (Some (IndexError ''string index out of range''), s)
       | c0 # _ \<Rightarrow>
      if c0 = CHR ''#'' then (None, s)
      else
      (let command' = (if isdigit c0 then dropWhile isspace (dropWhile isdecimal command)
                       else command);
           elements = split command'
       in run_elements C elements s)))"

text \<open>\<open>start_connection\<close> on the lines that remain on standard input: it ends with the
  input, or with the exception that \<open>get_cmd\<close> lets through.\<close>

fun start_connection ::
  "('b, 'e) collab \<Rightarrow> string list \<Rightarrow> ('b, 'e) session \<Rightarrow> exc option \<times> ('b, 'e) session" where
  "start_connection C [] s = (None, s)"
| "start_connection C (line # rest) s =
     (case get_cmd C line s of
        (None, s1) \<Rightarrow> start_connection C rest s1
      | (Some e, s1) \<Rightarrow> (Some e, s1))"

section \<open>A concrete board and engine\<close>

text \<open>
  An instance of the collaborators, used where a statement is evaluated on a concrete
  input. The constants have the values of the course's \<open>board_util\<close>. The board is
  the array of colour codes with its border cells, a point \<open>(row, col)\<close> at index
  \<open>(size + 1) * row + col\<close>; empty points are listed by increasing index. A move
  removes the single opposing stones next to it that it leaves without an empty
  neighbour; a move is a suicide when every neighbour of the point is an opposing stone or
  the border. The engine proposes the first empty point.
\<close>

definition std_util :: board_util where
  "std_util = \<lparr>BLACK = 1, WHITE = 2, EMPTY = 0, BORDER = 3, MAXSIZE = 25,
     coord_to_point = (\<lambda>row col boardsize. (boardsize + 1) * row + col),
     max_str_digits = 4300,
     max_str_digits_error = (\<lambda>n. ''Exceeds the limit (4300 digits) for integer string conversion: value has '' @
        str_nat n @ '' digits; use sys.set_int_max_str_digits() to increase the limit''),
     max_str_digits_str_error = ''Exceeds the limit (4300 digits) for integer string conversion; '' @
        ''use sys.set_int_max_str_digits() to increase the limit''\<rparr>"

record demo_board =
  d_size :: int
  d_player :: int
  d_cells :: "int list"

definition d_get :: "demo_board \<Rightarrow> int \<Rightarrow> int" where
  "d_get b p = (if 0 \<le> p \<and> p < int (length (d_cells b)) then d_cells b ! nat p else 3)"

definition d_neighbours :: "demo_board \<Rightarrow> int \<Rightarrow> int list" where
  "d_neighbours b p = [p - 1, p + 1, p - (d_size b + 1), p + (d_size b + 1)]"

definition d_enclosed :: "demo_board \<Rightarrow> int \<Rightarrow> int \<Rightarrow> bool" where
  "d_enclosed b p by_color = list_all (\<lambda>q. d_get b q = by_color \<or> d_get b q = 3) (d_neighbours b p)"

definition d_empty_points :: "demo_board \<Rightarrow> int list" where
  "d_empty_points b = filter (\<lambda>p. d_get b p = 0) (map int [0 ..< length (d_cells b)])"

definition d_put :: "demo_board \<Rightarrow> int \<Rightarrow> int \<Rightarrow> demo_board" where
  "d_put b p c = b\<lparr>d_cells := (d_cells b)[nat p := c]\<rparr>"

definition d_play :: "demo_board \<Rightarrow> int option \<Rightarrow> int \<Rightarrow> bool \<times> demo_board" where
  "d_play b point c =
     (case point of
        None \<Rightarrow> (True, b\<lparr>d_player := 3 - c\<rparr>)
      | Some p \<Rightarrow>
          if d_get b p \<noteq> 0 then (False, b)
          else
            (let b1 = d_put b p c;
                 taken = filter (\<lambda>q. d_get b1 q = 3 - c \<and> d_enclosed b1 q c) (d_neighbours b1 p);
                 b2 = fold (\<lambda>q x. d_put x q 0) taken b1
             in (True, b2\<lparr>d_player := 3 - c\<rparr>)))"

definition d_reset :: "demo_board \<Rightarrow> int \<Rightarrow> demo_board" where
  "d_reset b n =
     \<lparr>d_size = n, d_player = 1,
      d_cells = map (\<lambda>i. if i div (n + 1) \<in> {1 .. n} \<and> i mod (n + 1) \<in> {1 .. n} then 0 else 3)
                  [0 .. n * n + 3 * (n + 1) - 1]\<rparr>"

definition demo :: "(demo_board, unit) collab" where
  "demo =
     \<lparr>util = std_util,
      bsize = d_size,
      current_player = d_player,
      board_cell = (\<lambda>b i. if 0 \<le> i \<and> i < int (length (d_cells b)) then Inr (d_cells b ! nat i)
                            else Inl (IndexError ''index out of bounds'')),
      row_start = (\<lambda>b row. row * (d_size b + 1) + 1),
      reset = d_reset,
      get_empty_points = d_empty_points,
      get_color = d_get,
      is_legal = (\<lambda>b point c. case point of None \<Rightarrow> True
                    | Some p \<Rightarrow> d_get b p = 0 \<and> \<not> d_enclosed b p (3 - c)),
      check_suicide = (\<lambda>b p c. d_enclosed b p (3 - c)),
      play_move = d_play,
      twoD_board = (\<lambda>b. []),
      engine_name = (\<lambda>e. ''Demo''),
      engine_version = (\<lambda>e. ''1.0''),
      set_komi = (\<lambda>e text. Inr e),
      get_move = (\<lambda>e b c. case d_empty_points b of [] \<Rightarrow> None | p # _ \<Rightarrow> Some p),
      format_exc = (\<lambda>e. ''Traceback'')\<rparr>"

text \<open>A session on the empty 2x2 board, Black to move, and one in which White holds
  A1 and Black holds A2, Black to move: B1 would capture A1.\<close>

definition empty2 :: demo_board where
  "empty2 = \<lparr>d_size = 2, d_player = 1, d_cells = [3, 3, 3, 3, 0, 0, 3, 0, 0, 3, 3, 3, 3]\<rparr>"

definition atari2 :: demo_board where
  "atari2 = \<lparr>d_size = 2, d_player = 1, d_cells = [3, 3, 3, 3, 2, 0, 3, 1, 0, 3, 3, 3, 3]\<rparr>"

definition session_on :: "demo_board \<Rightarrow> bool \<Rightarrow> (demo_board, unit) session" where
  "session_on b dbg =
     \<lparr>debug_mode = dbg, go_engine = (), board = 0, objects = (\<lambda>r. b), next_ref = 1,
      stdout = [], stderr = []\<rparr>"

text \<open>A second board, which differs from the first in the order of its enumeration only:
  it lists its empty points by increasing index when Black is to move and by decreasing
  index when White is. For each state of the board the enumeration is fixed; it is not in
  the order of the coordinates.\<close>

definition demo_unordered :: "(demo_board, unit) collab" where
  "demo_unordered =
     demo\<lparr>get_empty_points :=
            (\<lambda>b. if d_player b = 1 then d_empty_points b else rev (d_empty_points b))\<rparr>"

section \<open>Notions used in the statements\<close>

text \<open>\<open>format_point(move_to_coord(c, size))\<close>: an exception of either call ends the
  computation.\<close>

definition format_move_to_coord :: "board_util \<Rightarrow> string \<Rightarrow> int \<Rightarrow> exc + string" where
  "format_move_to_coord U c board_size =
     (case move_to_coord U c board_size of
        Inl e \<Rightarrow> Inl e
      | Inr mv \<Rightarrow> format_point U mv)"

text \<open>The column a letter stands for in the transport format, in either case: its place,
  counted from 1, in the alphabet without I. No column for any other character.\<close>

fun index_of :: "'a \<Rightarrow> 'a list \<Rightarrow> nat" where
  "index_of x [] = 0"
| "index_of x (y # ys) = (if x = y then 0 else Suc (index_of x ys))"

definition column_number :: "char \<Rightarrow> int option" where
  "column_number l =
     (if upper_char l \<in> set column_letters
      then Some (int (index_of (upper_char l) column_letters) + 1)
      else None)"

text \<open>The value of a string of decimal digits read from the left, starting from
  \<open>acc\<close>.\<close>

definition digits_value :: "int \<Rightarrow> string \<Rightarrow> int" where
  "digits_value acc cs = foldl (\<lambda>a c. a * 10 + digit_val c) acc cs"

text \<open>The characters a string that \<open>int\<close> accepts is made of: decimal digits, the
  underscore, the signs and the white space of \<open>int\<close>.\<close>

definition int_char :: "char \<Rightarrow> bool" where
  "int_char c = (isdecimal c \<or> c = CHR ''_'' \<or> c = CHR ''+'' \<or> c = CHR ''-'' \<or> int_space c)"

text \<open>
  The reading of a coordinate string, in the words of the specification: \<open>pass\<close> in any
  case is the pass; otherwise the first character must be a column letter, the rest must
  be an integer literal, the row, and row and column must lie between 1 and the board
  size.
\<close>

definition decode_coordinate :: "board_util \<Rightarrow> string \<Rightarrow> int \<Rightarrow> move" where
  "decode_coordinate U s board_size =
     (if lower s = ''pass'' then Pass
      else
        (case s of
           [] \<Rightarrow> Invalid
         | l # digits \<Rightarrow>
             (case column_number l of
                None \<Rightarrow> Invalid
              | Some col \<Rightarrow>
                  (case py_int (max_str_digits U) digits of
                     None \<Rightarrow> Invalid
                   | Some row \<Rightarrow>
                       if 1 \<le> row \<and> row \<le> board_size \<and> col \<le> board_size then Coord row col
                       else Invalid))))"

text \<open>What a call of \<open>play_cmd\<close>'s \<open>try\<close> body can come to, seen from the session \<open>s\<close>
  it started in: nothing written to standard output and an exception of class
  \<open>Exception\<close> raised, or one success response written, an illegal-move message about the
  two arguments or the empty response.\<close>

definition illegal_reasons :: "string set" where
  "illegal_reasons = {''wrong color'', ''wrong coordinate'', ''occupied'', ''suicide'', ''capture''}"

definition play_outcome ::
  "string list \<Rightarrow> ('b, 'e) session \<Rightarrow> exc option \<times> ('b, 'e) session \<Rightarrow> bool" where
  "play_outcome args s r =
     (\<exists>s1. stdout s1 = stdout s \<and>
        ((\<exists>e. r = (Some e, s1) \<and> is_Exception e) \<or>
         (\<exists>reason. r = (None, respond (illegal_move (args ! 0) (args ! 1) reason) s1) \<and>
            2 \<le> length args \<and> reason \<in> illegal_reasons) \<or>
         r = (None, respond [] s1)))"

text \<open>What \<open>capture_detection\<close> returns, read off the state \<open>b\<close> of the live board:
  the list of empty points of \<open>b\<close> without the first occurrence of the point, compared
  with the list of empty points after \<open>play_move\<close> on a board in state \<open>b\<close>.\<close>

definition capture_result :: "('b, 'e) collab \<Rightarrow> 'b \<Rightarrow> int option \<Rightarrow> int \<Rightarrow> exc + bool" where
  "capture_result C b point color =
     (case list_remove (get_empty_points C b) point of
        Inl e \<Rightarrow> Inl e
      | Inr original \<Rightarrow>
          Inr (original \<noteq> get_empty_points C (snd (play_move C b point color))))"

text \<open>A point that the loop of \<open>legal_move_helper\<close> keeps, on a board in state \<open>b\<close>:
  the board reports the move as legal and capture detection answers \<open>False\<close>.\<close>

definition legal_point :: "('b, 'e) collab \<Rightarrow> 'b \<Rightarrow> int \<Rightarrow> int \<Rightarrow> bool" where
  "legal_point C b color p =
     (is_legal C b (Some p) color \<and> capture_result C b (Some p) color = Inr False)"

section \<open>Decimal numerals\<close>

lemma code_digit_char: "d < 10 \<Longrightarrow> code (digit_char d) = 48 + d"
  by (simp add: code_def digit_char_def)

lemma isdecimal_digit_char: "d < 10 \<Longrightarrow> isdecimal (digit_char d)"
  by (simp add: isdecimal_def code_digit_char)

lemma digit_val_digit_char: "d < 10 \<Longrightarrow> digit_val (digit_char d) = int d"
  by (simp add: digit_val_def code_digit_char)

lemma str_nat_isdecimal: "c \<in> set (str_nat n) \<Longrightarrow> isdecimal c"
proof (induction n arbitrary: c rule: str_nat.induct)
  case (1 n)
  show ?case
  proof (cases "n < 10")
    case True
    with "1.prems" show ?thesis
      by (simp add: str_nat.simps [of n] isdecimal_digit_char)
  next
    case False
    with "1.prems" "1.IH" show ?thesis
      by (auto simp add: str_nat.simps [of n] isdecimal_digit_char)
  qed
qed

lemma str_nat_not_Nil: "str_nat n \<noteq> []"
  by (simp add: str_nat.simps [of n])

lemma length_str_nat: "length (str_nat n) \<le> Suc n"
proof (induction n rule: str_nat.induct)
  case (1 n)
  show ?case
  proof (cases "n < 10")
    case True
    then show ?thesis by (simp add: str_nat.simps [of n])
  next
    case False
    with "1.IH" have "length (str_nat (n div 10)) \<le> Suc (n div 10)" by simp
    with False show ?thesis by (simp add: str_nat.simps [of n])
  qed
qed

lemma int_digits_all_digits:
  "(\<And>c. c \<in> set cs \<Longrightarrow> isdecimal c) \<Longrightarrow> int_digits acc cs = Some (digits_value acc cs)"
  by (induction cs arbitrary: acc) (simp_all add: digits_value_def)

lemma digits_value_str_nat: "digits_value 0 (str_nat n) = int n"
proof (induction n rule: str_nat.induct)
  case (1 n)
  show ?case
  proof (cases "n < 10")
    case True
    then show ?thesis
      by (simp add: str_nat.simps [of n] digits_value_def digit_val_digit_char)
  next
    case False
    then have "digits_value 0 (str_nat n) = digits_value 0 (str_nat (n div 10)) * 10 + int (n mod 10)"
      by (simp add: str_nat.simps [of n] digits_value_def digit_val_digit_char)
    with False "1.IH" show ?thesis
      by (simp add: zdiv_int zmod_int)
  qed
qed

lemma int_unsigned_str_nat: "int_unsigned (str_nat n) = Some (int n)"
proof (cases "str_nat n")
  case Nil
  then show ?thesis by (simp add: str_nat_not_Nil)
next
  case (Cons c cs)
  then have d: "\<And>x. x \<in> set (c # cs) \<Longrightarrow> isdecimal x"
    using str_nat_isdecimal [of _ n] by simp
  have "digits_value 0 (c # cs) = int n"
    using digits_value_str_nat [of n] Cons by simp
  then have "digits_value (digit_val c) cs = int n"
    by (simp add: digits_value_def)
  with d Cons show ?thesis
    by (simp add: int_unsigned_def int_digits_all_digits)
qed

lemma isdecimal_not_int_space: "isdecimal c \<Longrightarrow> \<not> int_space c"
  by (auto simp add: isdecimal_def int_space_def)

lemma dropWhile_none: "(\<And>c. c \<in> set s \<Longrightarrow> \<not> P c) \<Longrightarrow> dropWhile P s = s"
  by (cases s) simp_all

lemma int_strip_no_space: "(\<And>c. c \<in> set s \<Longrightarrow> \<not> int_space c) \<Longrightarrow> int_strip s = s"
proof -
  assume a: "\<And>c. c \<in> set s \<Longrightarrow> \<not> int_space c"
  then have "dropWhile int_space s = s"
    by (rule dropWhile_none)
  moreover have "dropWhile int_space (rev s) = rev s"
    by (rule dropWhile_none) (simp add: a)
  ultimately show ?thesis by (simp add: int_strip_def)
qed

lemma int_literal_str_nat: "int_literal (str_nat n) = Some (int n)"
proof -
  have s: "int_strip (str_nat n) = str_nat n"
    by (rule int_strip_no_space) (simp add: str_nat_isdecimal isdecimal_not_int_space)
  obtain c cs where cs: "str_nat n = c # cs"
    using str_nat_not_Nil [of n] by (cases "str_nat n") auto
  then have "isdecimal c" using str_nat_isdecimal [of c n] by simp
  then have "c \<noteq> CHR ''-''" "c \<noteq> CHR ''+''"
    by (auto simp add: isdecimal_def code_def)
  with s cs int_unsigned_str_nat [of n] show ?thesis
    by (simp add: int_literal_def)
qed

text \<open>The limit on the digits concerns no string of at most 640 characters.\<close>

lemma length_digit_run: "length (filter isdecimal (digit_run s)) \<le> length s"
proof -
  let ?t = "dropWhile int_space s"
  let ?u = "case ?t of [] \<Rightarrow> [] | c # cs \<Rightarrow> if c = CHR ''-'' \<or> c = CHR ''+'' then cs else ?t"
  have "length (filter isdecimal (digit_run s)) \<le> length (digit_run s)"
    by simp
  also have "\<dots> \<le> length ?u"
    unfolding digit_run_def Let_def by (rule length_takeWhile_le)
  also have "\<dots> \<le> length ?t"
    by (simp split: list.split)
  also have "\<dots> \<le> length s"
    by (rule length_dropWhile_le)
  finally show ?thesis .
qed

lemma int_parse_short:
  assumes "length s \<le> 640"
  shows "int_parse maxdigits s =
     (case int_literal s of None \<Rightarrow> Invalid_literal | Some v \<Rightarrow> Int_value v)"
proof -
  from assms length_digit_run [of s]
  have "\<not> over_limit maxdigits (length (filter isdecimal (digit_run s)))"
    by (simp add: over_limit_def)
  then show ?thesis
    by (simp add: int_parse_def)
qed

lemma py_int_short: "length s \<le> 640 \<Longrightarrow> py_int maxdigits s = int_literal s"
  by (simp add: py_int_def int_parse_short split: option.split)

lemma py_int_literal: "py_int maxdigits s = Some r \<Longrightarrow> int_literal s = Some r"
  by (simp add: py_int_def int_parse_def Let_def split: if_splits option.splits)

lemma py_int_str_nat: "n < 640 \<Longrightarrow> py_int maxdigits (str_nat n) = Some (int n)"
  using length_str_nat [of n] by (simp add: py_int_short int_literal_str_nat)

lemma py_int_str_int: "0 \<le> r \<Longrightarrow> r < 640 \<Longrightarrow> py_int maxdigits (str_int r) = Some r"
  by (simp add: str_int_def py_int_str_nat)

lemma lower_char_digit: "isdecimal c \<Longrightarrow> lower_char c = c"
  by (simp add: isdecimal_def lower_char_def)

lemma upper_char_digit: "isdecimal c \<Longrightarrow> upper_char c = c"
  by (simp add: isdecimal_def upper_char_def)

lemma lower_str_nat: "lower (str_nat n) = str_nat n"
  by (simp add: lower_def map_idI str_nat_isdecimal lower_char_digit)

lemma upper_str_nat: "upper (str_nat n) = str_nat n"
  by (simp add: upper_def map_idI str_nat_isdecimal upper_char_digit)

section \<open>Letters and columns\<close>

lemma index_of_less: "x \<in> set xs \<Longrightarrow> index_of x xs < length xs"
  by (induction xs) auto

lemma nth_index_of: "x \<in> set xs \<Longrightarrow> xs ! index_of x xs = x"
  by (induction xs) auto

lemma column_letters_code:
  "u \<in> set column_letters \<Longrightarrow>
     code u = (if index_of u column_letters < 8 then 65 + index_of u column_letters
               else 66 + index_of u column_letters)"
  by (auto simp add: column_letters_def code_def)

lemma length_column_letters: "length column_letters = 25"
  by (simp add: column_letters_def)

text \<open>The cases of \<open>lower_char\<close>: an upper-case letter moves 32 code points up, any
  other character stays.\<close>

lemma code_lower_char:
  "code (lower_char c) =
     (if (65 \<le> code c \<and> code c \<le> 90) \<or> (192 \<le> code c \<and> code c \<le> 222 \<and> code c \<noteq> 215)
      then code c + 32 else code c)"
  by (simp add: lower_char_def code_def)

lemma code_upper_char:
  "code (upper_char c) = (if 97 \<le> code c \<and> code c \<le> 122 then code c - 32 else code c)"
proof (cases "97 \<le> code c \<and> code c \<le> 122")
  case True
  then have "code c - 32 < 256" by arith
  then have "code (char_of (code c - 32)) = code c - 32"
    by (simp add: code_def)
  with True show ?thesis by (simp add: upper_char_def)
next
  case False
  then show ?thesis by (auto simp add: upper_char_def)
qed

lemma code_lower_char_of_upper:
  assumes "65 \<le> code (upper_char l)" "code (upper_char l) \<le> 90"
  shows "code (lower_char l) = code (upper_char l) + 32"
  using assms unfolding code_lower_char code_upper_char
  by (simp split: if_splits)

lemma code_upper_of_lower:
  assumes "97 \<le> code (lower_char l)" "code (lower_char l) \<le> 122"
  shows "code (upper_char l) = code (lower_char l) - 32"
  using assms unfolding code_lower_char code_upper_char
  by (simp split: if_splits)

lemma code_inj: "code a = code b \<Longrightarrow> a = b"
  by (simp add: code_def)

lemma upper_of_lower_letter:
  assumes "lower_char c = l" "97 \<le> code l" "code l \<le> 122"
  shows "upper_char c = upper_char l"
proof -
  from assms have "code (upper_char c) = code l - 32"
    using code_upper_of_lower [of c] by simp
  moreover from assms have "code (upper_char l) = code l - 32"
    by (simp add: code_upper_char)
  ultimately show ?thesis by (simp add: code_inj)
qed

lemma str_int_nonneg: "0 \<le> r \<Longrightarrow> str_int r = str_nat (nat r)"
  by (simp add: str_int_def)

lemma hd_str_nat_isdecimal: "str_nat n = c # cs \<Longrightarrow> isdecimal c"
  using str_nat_isdecimal [of c n] by simp

lemma lower_coordinate_not_pass:
  assumes "0 \<le> r"
  shows "lower (l # str_int r) \<noteq> ''pass''"
proof
  assume p: "lower (l # str_int r) = ''pass''"
  obtain c cs where cs: "str_nat (nat r) = c # cs"
    using str_nat_not_Nil [of "nat r"] by (cases "str_nat (nat r)") auto
  then have d: "isdecimal c" by (rule hd_str_nat_isdecimal)
  from p cs assms have "lower_char c = CHR ''a''"
    by (simp add: lower_def str_int_nonneg)
  with d have "c = CHR ''a''" by (simp add: lower_char_digit)
  with d show False by (simp add: isdecimal_def code_def)
qed

lemma move_to_coord_letter_row:
  assumes size: "2 \<le> board_size" "board_size \<le> MAXSIZE U"
    and c: "97 \<le> code (lower_char l)" "code (lower_char l) \<le> 122" "code (lower_char l) \<noteq> 105"
    and row: "1 \<le> row" "row \<le> board_size" "row < 640"
    and col: "col = (if code (lower_char l) < 105 then int (code (lower_char l)) - 96
                     else int (code (lower_char l)) - 97)" "col \<le> board_size"
  shows "move_to_coord U (l # str_int row) board_size = Inr (Coord row col)"
proof -
  have r0: "0 \<le> row" using row by simp
  have np: "lower (l # str_int row) \<noteq> ''pass''"
    using r0 by (rule lower_coordinate_not_pass)
  have low: "lower (l # str_int row) = lower_char l # str_int row"
    using r0 by (simp add: lower_def str_int_nonneg map_idI str_nat_isdecimal lower_char_digit)
  have ni: "lower_char l \<noteq> CHR ''i''"
    using c(3) by (auto simp add: code_def)
  have pi: "py_int (max_str_digits U) (str_int row) = Some row"
    using r0 row(3) by (rule py_int_str_int)
  show ?thesis
    unfolding move_to_coord_def Let_def
    using size c row col np ni
    by (auto simp add: low pi split: if_splits)
qed

lemma format_point_coord:
  assumes "MAXSIZE U \<le> 25" "0 \<le> row" "row < MAXSIZE U" "1 \<le> col" "col < MAXSIZE U"
  shows "format_point U (Coord row col) = Inr (column_letters ! nat (col - 1) # str_int row)"
  using assms by (simp add: format_point_def str_index_def length_column_letters)

lemma coordinate_roundtrip:
  assumes size: "2 \<le> board_size" "board_size \<le> MAXSIZE U" "MAXSIZE U \<le> 25"
    and l: "column_number l = Some col" "col \<le> board_size" "col < MAXSIZE U"
    and row: "1 \<le> row" "row \<le> board_size" "row < MAXSIZE U"
  shows "format_move_to_coord U (l # str_int row) board_size = Inr (upper (l # str_int row))"
proof -
  define u where "u = upper_char l"
  define k where "k = index_of u column_letters"
  from l(1) have mem: "u \<in> set column_letters" and colk: "col = int k + 1"
    by (auto simp add: column_number_def u_def k_def split: if_splits)
  have k25: "k < 25"
    using index_of_less [OF mem] by (simp add: k_def length_column_letters)
  have cu: "code u = (if k < 8 then 65 + k else 66 + k)"
    using column_letters_code [OF mem] by (simp add: k_def)
  have nth: "column_letters ! k = u"
    using nth_index_of [OF mem] by (simp add: k_def)
  have cl: "code (lower_char l) = code u + 32"
    unfolding u_def
    by (rule code_lower_char_of_upper) (use cu k25 in \<open>simp_all add: u_def [symmetric]\<close>)
  have parse: "move_to_coord U (l # str_int row) board_size = Inr (Coord row col)"
    by (rule move_to_coord_letter_row) (use size l row cl cu k25 colk in \<open>auto\<close>)
  have fmt: "format_point U (Coord row col) = Inr (column_letters ! nat (col - 1) # str_int row)"
    by (rule format_point_coord) (use size l row colk in \<open>auto\<close>)
  have up: "upper (l # str_int row) = u # str_int row"
    using row by (simp add: upper_def u_def str_int_nonneg map_idI str_nat_isdecimal upper_char_digit)
  from parse fmt nth colk up show ?thesis
    by (simp add: format_move_to_coord_def)
qed

lemma upper_of_lower_pass:
  assumes "lower c = ''pass''"
  shows "upper c = ''PASS''"
proof -
  from assms obtain c1 c2 c3 c4 where c: "c = [c1, c2, c3, c4]"
    and l: "lower_char c1 = CHR ''p''" "lower_char c2 = CHR ''a''"
      "lower_char c3 = CHR ''s''" "lower_char c4 = CHR ''s''"
    by (auto simp add: lower_def map_eq_Cons_conv)
  have "upper_char c1 = upper_char (CHR ''p'')"
    by (rule upper_of_lower_letter [OF l(1)]) (simp_all add: code_def)
  moreover have "upper_char c2 = upper_char (CHR ''a'')"
    by (rule upper_of_lower_letter [OF l(2)]) (simp_all add: code_def)
  moreover have "upper_char c3 = upper_char (CHR ''s'')"
    by (rule upper_of_lower_letter [OF l(3)]) (simp_all add: code_def)
  moreover have "upper_char c4 = upper_char (CHR ''s'')"
    by (rule upper_of_lower_letter [OF l(4)]) (simp_all add: code_def)
  moreover have "upper_char (CHR ''p'') = CHR ''P''" "upper_char (CHR ''a'') = CHR ''A''"
    "upper_char (CHR ''s'') = CHR ''S''"
    by code_simp+
  ultimately show ?thesis
    by (simp add: c upper_def)
qed

lemma pass_roundtrip:
  assumes "2 \<le> board_size" "board_size \<le> MAXSIZE U" "MAXSIZE U \<le> 25" "lower c = ''pass''"
  shows "format_move_to_coord U c board_size = Inr (upper c)"
  using assms upper_of_lower_pass [OF assms(4)]
  by (simp add: format_move_to_coord_def move_to_coord_def format_point_def)

section \<open>Claim C8: formatting what was parsed\<close>

text \<open>On a board of the largest size, 25, the last row is a valid row for
  \<open>move_to_coord\<close> and out of range for \<open>format_point\<close>, whose test is
  \<open>0 <= row < MAXSIZE\<close>.\<close>

lemma format_point_rejects_MAXSIZE:
  "move_to_coord std_util ''a25'' 25 = Inr (Coord 25 1) \<and>
   format_move_to_coord std_util ''a25'' 25 = Inl (ValueError [])"
  by code_simp

text \<open>
  C8, as stated, fails: \<open>move_to_coord\<close> reads the row with \<open>int\<close>, so it accepts
  \<open>a01\<close> on a 5x5 board as row 1, column 1, and \<open>format_point\<close> writes that point as
  \<open>A1\<close>, which is not \<open>A01\<close>.
\<close>

theorem roundtrip_counterexample:
  "move_to_coord std_util ''a01'' 5 = Inr (Coord 1 1) \<and>
   format_move_to_coord std_util ''a01'' 5 = Inr ''A1'' \<and>
   upper ''a01'' = ''A01''"
  by code_simp

text \<open>
  C8, amended. For a board size between 2 and \<open>MAXSIZE\<close> (at most 25): a string made of a
  column letter in either case (any letter but I) and the decimal numeral of a row, as
  \<open>str\<close> writes it, with row and column on the board and both below \<open>MAXSIZE\<close>, is
  parsed by \<open>move_to_coord\<close> and written back by \<open>format_point\<close> as the same string in
  upper case; and \<open>pass\<close> in any mix of cases comes back as \<open>PASS\<close>.
\<close>

theorem format_point_move_to_coord_roundtrip:
  assumes "2 \<le> board_size" "board_size \<le> MAXSIZE U" "MAXSIZE U \<le> 25"
  shows "(column_number l = Some col \<and> col \<le> board_size \<and> col < MAXSIZE U \<and>
          1 \<le> row \<and> row \<le> board_size \<and> row < MAXSIZE U \<longrightarrow>
            format_move_to_coord U (l # str_int row) board_size = Inr (upper (l # str_int row))) \<and>
         (lower c = ''pass'' \<longrightarrow> format_move_to_coord U c board_size = Inr (upper c))"
  using assms coordinate_roundtrip [of board_size U l col row] pass_roundtrip [of board_size U c]
  by blast

theorem format_point_move_to_coord_roundtrip_witness:
  "CHR ''t'' # str_int 19 = ''t19'' \<and>
   format_move_to_coord std_util ''t19'' 19 = Inr ''T19'' \<and>
   format_move_to_coord std_util ''pAss'' 19 = Inr ''PASS''"
proof -
  have size: "(2::int) \<le> 19" "19 \<le> MAXSIZE std_util" "MAXSIZE std_util \<le> 25"
    by (simp_all add: std_util_def)
  have below: "19 < MAXSIZE std_util"
    by (simp add: std_util_def)
  have col: "column_number (CHR ''t'') = Some 19"
    by code_simp
  have pass: "lower ''pAss'' = ''pass''"
    by code_simp
  have t19: "CHR ''t'' # str_int 19 = ''t19''"
    by code_simp
  have up: "upper ''t19'' = ''T19''" "upper ''pAss'' = ''PASS''"
    by code_simp+
  from format_point_move_to_coord_roundtrip [OF size, of "CHR ''t''" 19 19 "''pAss''"]
    col pass below
  have "format_move_to_coord std_util (CHR ''t'' # str_int 19) 19 = Inr (upper (CHR ''t'' # str_int 19))"
    and "format_move_to_coord std_util ''pAss'' 19 = Inr (upper ''pAss'')"
    by simp_all
  with t19 up show ?thesis by simp
qed

section \<open>Claim C9: what move\_to\_coord rejects\<close>

lemma int_digits_chars: "int_digits acc cs = Some r \<Longrightarrow> c \<in> set cs \<Longrightarrow> int_char c"
proof (induction acc cs rule: int_digits.induct)
  case (1 acc)
  then show ?case by simp
next
  case (2 acc d ds)
  then show ?case
    by (auto simp add: int_char_def split: if_splits list.splits)
qed

lemma int_unsigned_chars: "int_unsigned cs = Some r \<Longrightarrow> c \<in> set cs \<Longrightarrow> int_char c"
  by (auto simp add: int_unsigned_def int_char_def split: list.splits if_splits
      dest: int_digits_chars)

lemma set_dropWhile_keep: "x \<in> set xs \<Longrightarrow> \<not> P x \<Longrightarrow> x \<in> set (dropWhile P xs)"
  by (induction xs) auto

lemma int_strip_keeps: "c \<in> set s \<Longrightarrow> \<not> int_space c \<Longrightarrow> c \<in> set (int_strip s)"
  by (simp add: int_strip_def set_dropWhile_keep)

lemma int_literal_chars:
  assumes "int_literal s = Some r" "c \<in> set s"
  shows "int_char c"
proof (cases "int_space c")
  case True
  then show ?thesis by (simp add: int_char_def)
next
  case False
  with assms(2) have m: "c \<in> set (int_strip s)" by (simp add: int_strip_keeps)
  from assms(1) obtain d ds where st: "int_strip s = d # ds"
    by (auto simp add: int_literal_def split: list.splits)
  show ?thesis
  proof (cases "d = CHR ''-'' \<or> d = CHR ''+''")
    case True
    with assms(1) st obtain r' where "int_unsigned ds = Some r'"
      by (auto simp add: int_literal_def split: if_splits)
    then have "\<And>x. x \<in> set ds \<Longrightarrow> int_char x" by (rule int_unsigned_chars)
    with True m st show ?thesis by (auto simp add: int_char_def)
  next
    case False
    with assms(1) st have "int_unsigned (d # ds) = Some r"
      by (auto simp add: int_literal_def split: if_splits)
    with m st show ?thesis by (auto dest: int_unsigned_chars)
  qed
qed

lemma py_int_chars: "py_int maxdigits s = Some r \<Longrightarrow> c \<in> set s \<Longrightarrow> int_char c"
  by (rule int_literal_chars [OF py_int_literal])

lemma int_char_code:
  "int_char c \<longleftrightarrow>
     (48 \<le> code c \<and> code c \<le> 57) \<or> code c \<in> {95, 43, 45, 9, 10, 11, 12, 13, 32, 133, 160}"
proof -
  have "c = CHR ''_'' \<longleftrightarrow> code c = 95" "c = CHR ''+'' \<longleftrightarrow> code c = 43"
    "c = CHR ''-'' \<longleftrightarrow> code c = 45"
    using code_inj [of c "CHR ''_''"] code_inj [of c "CHR ''+''"] code_inj [of c "CHR ''-''"]
    by (auto simp add: code_def)
  then show ?thesis
    by (auto simp add: int_char_def isdecimal_def int_space_def)
qed

lemma lower_char_int_char: "int_char c \<Longrightarrow> lower_char c = c"
  by (rule code_inj) (auto simp add: int_char_code code_lower_char)

lemma int_char_lower_char:
  assumes "int_char (lower_char c)"
  shows "int_char c"
proof (cases "(65 \<le> code c \<and> code c \<le> 90) \<or> (192 \<le> code c \<and> code c \<le> 222 \<and> code c \<noteq> 215)")
  case True
  then have "code (lower_char c) = code c + 32"
    by (simp add: code_lower_char)
  with assms have "(48 \<le> code c + 32 \<and> code c + 32 \<le> 57) \<or>
      code c + 32 \<in> {95, 43, 45, 9, 10, 11, 12, 13, 32, 133, 160}"
    by (simp only: int_char_code)
  with True have False
    by (simp only: insert_iff empty_iff) arith
  then show ?thesis ..
next
  case False
  then have "code (lower_char c) = code c"
    by (simp only: code_lower_char if_False)
  then have "lower_char c = c" by (rule code_inj)
  with assms show ?thesis by simp
qed

lemma py_int_lower: "py_int maxdigits (lower s) = py_int maxdigits s"
proof (cases "\<forall>c\<in>set s. int_char c")
  case True
  then have "lower s = s"
    by (simp add: lower_def map_idI lower_char_int_char)
  then show ?thesis by simp
next
  case False
  then obtain c where c: "c \<in> set s" "\<not> int_char c" by blast
  then have "py_int maxdigits s = None"
    using py_int_chars [of maxdigits s _ c] by (cases "py_int maxdigits s") auto
  moreover from c have "lower_char c \<in> set (lower s)" "\<not> int_char (lower_char c)"
    by (auto simp add: lower_def dest: int_char_lower_char)
  then have "py_int maxdigits (lower s) = None"
    using py_int_chars [of maxdigits "lower s" _ "lower_char c"]
    by (cases "py_int maxdigits (lower s)") auto
  ultimately show ?thesis by simp
qed

lemma code_eq_char: "code u = n \<Longrightarrow> u = char_of n"
  by (auto simp add: code_def)

lemma upper_letters_in_column_letters:
  assumes "65 \<le> code u" "code u \<le> 90" "code u \<noteq> 73"
  shows "u \<in> set column_letters"
proof -
  from assms have "code u \<in> {65, 66, 67, 68, 69, 70, 71, 72, 74, 75, 76, 77, 78, 79, 80, 81, 82,
      83, 84, 85, 86, 87, 88, 89, 90}"
    by simp arith
  then have "u \<in> char_of ` {65, 66, 67, 68, 69, 70, 71, 72, 74, 75, 76, 77, 78, 79, 80, 81, 82,
      83, 84, 85, 86, 87, 88, 89, 90 :: nat}"
    using code_eq_char [of u] by blast
  then show ?thesis
    by (auto simp add: column_letters_def char_of_eq_iff)
qed

lemma column_number_lower:
  "column_number l =
     (if 97 \<le> code (lower_char l) \<and> code (lower_char l) \<le> 122 \<and> lower_char l \<noteq> CHR ''i''
      then Some (if code (lower_char l) < 105 then int (code (lower_char l)) - 96
                 else int (code (lower_char l)) - 97)
      else None)"
proof (cases "upper_char l \<in> set column_letters")
  case True
  define k where "k = index_of (upper_char l) column_letters"
  have k25: "k < 25"
    using index_of_less [OF True] by (simp add: k_def length_column_letters)
  have cu: "code (upper_char l) = (if k < 8 then 65 + k else 66 + k)"
    using column_letters_code [OF True] by (simp add: k_def)
  have cl: "code (lower_char l) = code (upper_char l) + 32"
    by (rule code_lower_char_of_upper) (use cu k25 in simp_all)
  have ni: "lower_char l \<noteq> CHR ''i''"
    using cl cu by (auto simp add: code_def split: if_splits)
  from True have "column_number l = Some (int k + 1)"
    by (simp add: column_number_def k_def)
  with cl cu k25 ni show ?thesis by auto
next
  case False
  have "\<not> (97 \<le> code (lower_char l) \<and> code (lower_char l) \<le> 122 \<and> lower_char l \<noteq> CHR ''i'')"
  proof
    assume a: "97 \<le> code (lower_char l) \<and> code (lower_char l) \<le> 122 \<and> lower_char l \<noteq> CHR ''i''"
    then have cu: "code (upper_char l) = code (lower_char l) - 32"
      by (simp add: code_upper_of_lower)
    from a have "code (lower_char l) \<noteq> 105"
      using code_eq_char [of "lower_char l" 105] by (auto simp add: char_of_eq_iff)
    with a cu have "upper_char l \<in> set column_letters"
      by (intro upper_letters_in_column_letters) auto
    with False show False by simp
  qed
  with False show ?thesis by (simp add: column_number_def)
qed

text \<open>\<open>move_to_coord\<close>, for a board size in range, is the reading of the coordinate in
  the words of the specification.\<close>

lemma move_to_coord_decode:
  assumes "2 \<le> board_size" "board_size \<le> MAXSIZE U"
  shows "move_to_coord U s board_size = Inr (decode_coordinate U s board_size)"
proof (cases s)
  case Nil
  then show ?thesis
    using assms by (simp add: move_to_coord_def decode_coordinate_def lower_def)
next
  case (Cons l digits)
  have low: "lower s = lower_char l # lower digits"
    by (simp add: Cons lower_def)
  show ?thesis
    unfolding move_to_coord_def decode_coordinate_def Let_def low
    using assms
    by (simp add: Cons py_int_lower column_number_lower split: option.splits)
qed





section \<open>Claim C6: the arity check\<close>

lemma get_cmd_plain:
  assumes "command = c0 # rest" "\<not> isspace c0" "c0 \<noteq> CHR ''#''" "\<not> isdigit c0"
  shows "get_cmd C command s = run_elements C (split command) s"
proof -
  have "c0 \<notin> set [CHR '' '', CHR 0x0D, CHR 0x09]"
    using assms(2) by (auto simp add: isspace_def code_def)
  then have "strip_chars [CHR '' '', CHR 0x0D, CHR 0x09] command \<noteq> []"
    by (simp add: strip_chars_def assms(1))
  with assms show ?thesis
    by (simp add: get_cmd_def)
qed

lemma map_of_argmap:
  "map_of argmap cmd =
     (if cmd = ''boardsize'' then Some (1, ''Usage: boardsize INT'')
      else if cmd = ''komi'' then Some (1, ''Usage: komi FLOAT'')
      else if cmd = ''known_command'' then Some (1, ''Usage: known_command CMD_NAME'')
      else if cmd = ''genmove'' then Some (1, ''Usage: genmove {w,b}'')
      else if cmd = ''play'' then Some (2, ''Usage: play {b,w} MOVE'')
      else if cmd = ''legal_moves'' then Some (1, ''Usage: legal_moves {w,b}'')
      else None)"
  by (simp add: argmap_def)

text \<open>
  C6, as stated, fails: the table \<open>argmap\<close> has a sixth entry, \<open>legal_moves\<close> with one
  argument, so the line \<open>legal_moves\<close> is rejected for its argument count although its
  name is none of the five.
\<close>

theorem arity_check_counterexample:
  "fst (get_cmd demo (''legal_moves'' @ [CHR 0x0A]) (session_on empty2 False)) = None \<and>
   stdout (snd (get_cmd demo (''legal_moves'' @ [CHR 0x0A]) (session_on empty2 False))) =
     [''? Usage: legal_moves {w,b}'' @ [CHR 0x0A, CHR 0x0A]]"
  by code_simp

text \<open>
  C6, amended. The arity check rejects a command exactly when its name is
  \<open>boardsize\<close>, \<open>komi\<close>, \<open>known_command\<close>, \<open>genmove\<close> or \<open>legal_moves\<close>
  and it does not have one argument, or its name is \<open>play\<close> and it does not have two.
  A rejected command gets the usage error of its table entry and nothing else happens: no
  handler runs. Any other command passes the check, which then leaves the session as it
  is.
\<close>

theorem arity_check:
  "(fst (has_arg_error cmd (int (length args)) s) \<longleftrightarrow>
      (cmd \<in> {''boardsize'', ''komi'', ''known_command'', ''genmove'', ''legal_moves''} \<and>
         length args \<noteq> 1) \<or>
      (cmd = ''play'' \<and> length args \<noteq> 2)) \<and>
   (fst (has_arg_error cmd (int (length args)) s) \<longrightarrow>
      (\<exists>n usage. map_of argmap cmd = Some (n, usage) \<and>
         run_elements C (cmd # args) s = (None, error usage s))) \<and>
   (\<not> fst (has_arg_error cmd (int (length args)) s) \<longrightarrow>
      snd (has_arg_error cmd (int (length args)) s) = s)"
  by (auto simp add: has_arg_error_def run_elements_def map_of_argmap)

theorem arity_check_witness:
  "get_cmd demo (''play b'' @ [CHR 0x0A]) (session_on empty2 False) =
     (None, error ''Usage: play {b,w} MOVE'' (session_on empty2 False)) \<and>
   \<not> fst (has_arg_error ''showboard'' (int (length [''now''])) (session_on empty2 False)) \<and>
   snd (has_arg_error ''showboard'' (int (length [''now''])) (session_on empty2 False)) =
     session_on empty2 False"
proof -
  have toks: "split (''play b'' @ [CHR 0x0A]) = [''play'', ''b'']"
    by code_simp
  have line: "get_cmd demo (''play b'' @ [CHR 0x0A]) (session_on empty2 False) =
      run_elements demo [''play'', ''b''] (session_on empty2 False)"
    using get_cmd_plain [of "''play b'' @ [CHR 0x0A]" "CHR ''p''" "''lay b'' @ [CHR 0x0A]" demo] toks
    by (simp add: isspace_def isdigit_def isdecimal_def code_def)
  have usage: "map_of argmap ''play'' = Some (2, ''Usage: play {b,w} MOVE'')"
    by (simp add: map_of_argmap)
  from arity_check [of "''play''" "[''b'']" "session_on empty2 False" demo] usage
  have "run_elements demo [''play'', ''b''] (session_on empty2 False) =
      (None, error ''Usage: play {b,w} MOVE'' (session_on empty2 False))"
    by simp
  moreover from arity_check [of "''showboard''" "[''now'']" "session_on empty2 False" demo]
  have "\<not> fst (has_arg_error ''showboard'' (int (length [''now''])) (session_on empty2 False)) \<and>
     snd (has_arg_error ''showboard'' (int (length [''now''])) (session_on empty2 False)) =
       session_on empty2 False"
    by simp
  ultimately show ?thesis using line by simp
qed

section \<open>Claim C10: every response of play is a success frame\<close>

lemma capture_detection_frame:
  assumes "capture_detection C point color s = (r, s')"
  shows "stdout s' = stdout s \<and> stderr s' = stderr s \<and> debug_mode s' = debug_mode s \<and>
         go_engine s' = go_engine s \<and> board s' = board s"
  using assms
  by (auto simp add: capture_detection_def copy_board_def Let_def
      split: prod.splits sum.splits if_splits)

lemma capture_detection_raises:
  "capture_detection C point color s = (Inl e, s') \<Longrightarrow> is_Exception e"
  by (auto simp add: capture_detection_def copy_board_def Let_def list_remove_def
      split: prod.splits sum.splits if_splits option.splits)

lemma list_index_raises: "list_index xs i = Inl e \<Longrightarrow> is_Exception e"
  by (auto simp add: list_index_def split: if_splits)

lemma color_to_int_raises: "color_to_int U c = Inl e \<Longrightarrow> is_Exception e"
  by (auto simp add: color_to_int_def split: if_splits)

lemma str_index_raises: "str_index s i = Inl e \<Longrightarrow> is_Exception e"
  by (auto simp add: str_index_def Let_def split: if_splits)

lemma coordinate_checker_raises: "coordinate_checker c p = Inl e \<Longrightarrow> is_Exception e"
  by (auto simp add: coordinate_checker_def split: sum.splits if_splits dest: str_index_raises)

lemma move_to_coord_raises: "move_to_coord U p n = Inl e \<Longrightarrow> is_Exception e"
  by (auto simp add: move_to_coord_def Let_def split: if_splits list.splits option.splits)

lemma stdout_respond: "stdout (respond p s) = stdout s @ [''= '' @ p @ [CHR 0x0A, CHR 0x0A]]"
  by (simp add: respond_def)

lemma stdout_debug_msg: "stdout (debug_msg m s) = stdout s"
  by (simp add: debug_msg_def)

lemma stdout_set_live: "stdout (set_live b s) = stdout s"
  by (simp add: set_live_def)

lemma play_outcome_exc:
  "is_Exception e \<Longrightarrow> stdout s1 = stdout s \<Longrightarrow> play_outcome args s (Some e, s1)"
  unfolding play_outcome_def by (rule exI [of _ s1]) simp

lemma play_outcome_illegal:
  assumes "list_index args 0 = Inr a0" "list_index args 1 = Inr a1"
    and "reason \<in> illegal_reasons" and "stdout s1 = stdout s"
  shows "play_outcome args s (None, respond (illegal_move a0 a1 reason) s1)"
proof -
  from assms(1,2) have a: "a0 = args ! 0" "a1 = args ! 1" "2 \<le> length args"
    by (auto simp add: list_index_def split: if_splits)
  have "\<exists>r. (None, respond (illegal_move a0 a1 reason) s1) =
      (None, respond (illegal_move (args ! 0) (args ! 1) r) s1) \<and>
      2 \<le> length args \<and> r \<in> illegal_reasons"
    using assms(3) a by (intro exI [of _ reason] conjI) simp_all
  with assms(4) show ?thesis
    unfolding play_outcome_def by (intro exI [of _ s1] conjI disjI2 disjI1)
qed

lemma play_outcome_done: "stdout s1 = stdout s \<Longrightarrow> play_outcome args s (None, respond [] s1)"
  unfolding play_outcome_def by (intro exI [of _ s1] conjI disjI2) simp_all

lemma illegal_reasons_mem:
  "''wrong color'' \<in> illegal_reasons" "''wrong coordinate'' \<in> illegal_reasons"
  "''occupied'' \<in> illegal_reasons" "''suicide'' \<in> illegal_reasons"
  "''capture'' \<in> illegal_reasons"
  by (simp_all add: illegal_reasons_def)

lemma stdout_capture_detection: "stdout (snd (capture_detection C point color s)) = stdout s"
  using capture_detection_frame [of C point color s]
  by (cases "capture_detection C point color s") simp

lemma capture_detection_fst_raises:
  "fst (capture_detection C point color s) = Inl e \<Longrightarrow> is_Exception e"
  using capture_detection_raises [of C point color s e]
  by (cases "capture_detection C point color s") simp

lemma play_try_outcome: "play_outcome args s (play_try C args s)"
  unfolding play_try_def Let_def case_prod_unfold
  by (simp split: sum.split move.split
      add: play_outcome_exc play_outcome_illegal play_outcome_done illegal_reasons_mem
        list_index_raises color_to_int_raises coordinate_checker_raises move_to_coord_raises
        capture_detection_fst_raises stdout_capture_detection stdout_debug_msg stdout_set_live)

lemma success_frame_intro:
  assumes "r = (None, respond p s1)" "stdout s1 = stdout s" "P p"
  shows "fst r = None \<and>
     (\<exists>payload. stdout (snd r) = stdout s @ [''= '' @ payload @ [CHR 0x0A, CHR 0x0A]] \<and> P payload)"
  using assms by (auto simp add: stdout_respond)

lemma play_cmd_cases:
  "\<exists>s1. stdout s1 = stdout s \<and>
     ((\<exists>e. play_cmd C args s = (None, respond (''Error: '' @ str_exc e) s1)) \<or>
      (\<exists>reason. play_cmd C args s = (None, respond (illegal_move (args ! 0) (args ! 1) reason) s1) \<and>
         2 \<le> length args \<and> reason \<in> illegal_reasons) \<or>
      play_cmd C args s = (None, respond [] s1))"
proof -
  from play_try_outcome [of args s C] obtain s1 where s1: "stdout s1 = stdout s"
    and c: "(\<exists>e. play_try C args s = (Some e, s1) \<and> is_Exception e) \<or>
         (\<exists>reason. play_try C args s = (None, respond (illegal_move (args ! 0) (args ! 1) reason) s1) \<and>
            2 \<le> length args \<and> reason \<in> illegal_reasons) \<or>
         play_try C args s = (None, respond [] s1)"
    unfolding play_outcome_def by blast
  from c have "(\<exists>e. play_cmd C args s = (None, respond (''Error: '' @ str_exc e) s1)) \<or>
      (\<exists>reason. play_cmd C args s = (None, respond (illegal_move (args ! 0) (args ! 1) reason) s1) \<and>
         2 \<le> length args \<and> reason \<in> illegal_reasons) \<or>
      play_cmd C args s = (None, respond [] s1)"
    by (auto simp add: play_cmd_def)
  with s1 show ?thesis by blast
qed

text \<open>
  C10. Whatever its arguments and the session, \<open>play_cmd\<close> returns without raising and
  writes exactly one string to standard output, a success frame \<open>= payload\<close> followed
  by two newlines, never an error frame: the payload is empty (the move was played), one
  of the five illegal-move messages about the two arguments, or \<open>Error: \<close> followed by
  the text of the exception that the body raised.
\<close>

theorem play_cmd_success_frame:
  "fst (play_cmd C args s) = None \<and>
   (\<exists>payload.
      stdout (snd (play_cmd C args s)) = stdout s @ [''= '' @ payload @ [CHR 0x0A, CHR 0x0A]] \<and>
      (payload = [] \<or>
       (\<exists>reason. payload = illegal_move (args ! 0) (args ! 1) reason \<and>
          reason \<in> {''wrong color'', ''wrong coordinate'', ''occupied'', ''suicide'', ''capture''}) \<or>
       (\<exists>e. payload = ''Error: '' @ str_exc e)))"
proof -
  from play_cmd_cases [of s C args] obtain s1 where s1: "stdout s1 = stdout s"
    and c: "(\<exists>e. play_cmd C args s = (None, respond (''Error: '' @ str_exc e) s1)) \<or>
      (\<exists>reason. play_cmd C args s = (None, respond (illegal_move (args ! 0) (args ! 1) reason) s1) \<and>
         2 \<le> length args \<and> reason \<in> illegal_reasons) \<or>
      play_cmd C args s = (None, respond [] s1)"
    by blast
  from c show ?thesis
  proof (elim disjE exE conjE)
    fix e
    assume "play_cmd C args s = (None, respond (''Error: '' @ str_exc e) s1)"
    then show ?thesis
      by (rule success_frame_intro [OF _ s1]) (intro disjI2 exI [of _ e] refl)
  next
    fix reason
    assume eq: "play_cmd C args s = (None, respond (illegal_move (args ! 0) (args ! 1) reason) s1)"
      and r: "reason \<in> illegal_reasons"
    from r have "\<exists>reason'. illegal_move (args ! 0) (args ! 1) reason =
        illegal_move (args ! 0) (args ! 1) reason' \<and>
        reason' \<in> {''wrong color'', ''wrong coordinate'', ''occupied'', ''suicide'', ''capture''}"
      unfolding illegal_reasons_def by (intro exI [of _ reason] conjI refl)
    then have "illegal_move (args ! 0) (args ! 1) reason = [] \<or>
       (\<exists>reason'. illegal_move (args ! 0) (args ! 1) reason =
          illegal_move (args ! 0) (args ! 1) reason' \<and>
          reason' \<in> {''wrong color'', ''wrong coordinate'', ''occupied'', ''suicide'', ''capture''}) \<or>
       (\<exists>e. illegal_move (args ! 0) (args ! 1) reason = ''Error: '' @ str_exc e)"
      by (intro disjI2 disjI1)
    then show ?thesis
      by (rule success_frame_intro [OF eq s1])
  next
    assume "play_cmd C args s = (None, respond [] s1)"
    then show ?thesis
      by (rule success_frame_intro [OF _ s1]) (intro disjI1 refl)
  qed
qed

section \<open>Claim C3: capture detection\<close>

lemma capture_detection_eq:
  assumes "board s < next_ref s"
  shows "capture_detection C point color s =
     (capture_result C (live s) point color,
      s\<lparr>objects := (objects s)(next_ref s := snd (play_move C (live s) point color)),
        next_ref := Suc (next_ref s)\<rparr>)"
  using assms
  by (simp add: capture_detection_def copy_board_def capture_result_def live_def Let_def
      case_prod_unfold split: sum.split)

lemma capture_detection_live:
  assumes "board s < next_ref s"
  shows "live (snd (capture_detection C point color s)) = live s"
    and "board (snd (capture_detection C point color s)) = board s"
    and "board s < next_ref (snd (capture_detection C point color s))"
    and "fst (capture_detection C point color s) = capture_result C (live s) point color"
    and "r < next_ref s \<Longrightarrow> objects (snd (capture_detection C point color s)) r = objects s r"
  using assms by (simp_all add: capture_detection_eq live_def)

lemma capture_result_lists:
  assumes "point \<in> set (get_empty_points C b)"
  shows "capture_result C b (Some point) color =
     Inr (remove1 point (get_empty_points C b) \<noteq>
          get_empty_points C (snd (play_move C b (Some point) color)))"
  using assms by (simp add: capture_result_def list_remove_def)

lemma strict_sorted_lists_eq_iff:
  fixes xs ys :: "int list"
  assumes "sorted_wrt (<) xs" "sorted_wrt (<) ys"
  shows "xs = ys \<longleftrightarrow> set xs = set ys"
  using assms by (auto simp add: strict_sorted_iff intro: sorted_distinct_set_unique)

lemma capture_result_sets:
  assumes "point \<in> set (get_empty_points C b)"
    and "sorted_wrt (<) (get_empty_points C b)"
    and "sorted_wrt (<) (get_empty_points C (snd (play_move C b (Some point) color)))"
  shows "capture_result C b (Some point) color =
     Inr (set (get_empty_points C (snd (play_move C b (Some point) color))) \<noteq>
          set (get_empty_points C b) - {point})"
proof -
  from assms(2) have sd: "sorted (get_empty_points C b)" "distinct (get_empty_points C b)"
    by (simp_all add: strict_sorted_iff)
  then have "sorted_wrt (<) (remove1 point (get_empty_points C b))"
    by (simp add: strict_sorted_iff sorted_remove1)
  from strict_sorted_lists_eq_iff [OF this assms(3)] sd(2)
  have "remove1 point (get_empty_points C b) =
          get_empty_points C (snd (play_move C b (Some point) color)) \<longleftrightarrow>
        set (get_empty_points C b) - {point} =
          set (get_empty_points C (snd (play_move C b (Some point) color)))"
    by simp
  then show ?thesis
    unfolding capture_result_lists [OF assms(1)] by auto
qed

text \<open>
  C3, as stated, fails: \<open>capture_detection\<close> compares the two enumerations of empty
  points as lists, so the order in which the board lists them counts. On the board
  \<open>demo_unordered\<close>, which lists the points by increasing index when Black is to move
  and by decreasing index when White is, Black's move at A1 on the empty 2x2 board removes
  no stone, the set of empty points after the move is the set before less A1, and
  \<open>capture_detection\<close> returns \<open>True\<close>.
\<close>

theorem capture_detection_order_counterexample:
  "get_empty_points demo_unordered empty2 = [4, 5, 7, 8] \<and>
   get_empty_points demo_unordered (snd (play_move demo_unordered empty2 (Some 4) 1)) = [8, 7, 5] \<and>
   set (get_empty_points demo_unordered (snd (play_move demo_unordered empty2 (Some 4) 1))) =
     set (get_empty_points demo_unordered empty2) - {4} \<and>
   fst (capture_detection demo_unordered (Some 4) 1 (session_on empty2 False)) = Inr True"
proof -
  have before: "get_empty_points demo_unordered empty2 = [4, 5, 7, 8]"
    by code_simp
  have after: "get_empty_points demo_unordered (snd (play_move demo_unordered empty2 (Some 4) 1)) =
      [8, 7, 5]"
    by code_simp
  have answer: "fst (capture_detection demo_unordered (Some 4) 1 (session_on empty2 False)) = Inr True"
    by code_simp
  have "set [8, 7, 5] = set [4, 5, 7, 8] - {4::int}"
    by auto
  with before after answer show ?thesis
    by simp
qed

text \<open>
  C3, amended. In a session whose board object exists, for a point that the board lists as
  empty: \<open>capture_detection\<close> returns \<open>False\<close> exactly when the list of empty points
  after \<open>play_move\<close> on the copy is the list of empty points before with the first
  occurrence of the point taken out, the same points in the same order, and \<open>True\<close>
  otherwise; the board object of the session, and every other object that existed before
  the call, is in the state it was in. When the board lists its empty points in increasing
  order without repetition, before and after the move, this is the comparison of the set
  after the move with the set before less the point.
\<close>

theorem capture_detection_compares_empty_points:
  assumes "board s < next_ref s"
    and "point \<in> set (get_empty_points C (live s))"
  shows "fst (capture_detection C (Some point) color s) =
           Inr (get_empty_points C (snd (play_move C (live s) (Some point) color)) \<noteq>
                remove1 point (get_empty_points C (live s))) \<and>
         live (snd (capture_detection C (Some point) color s)) = live s \<and>
         board (snd (capture_detection C (Some point) color s)) = board s \<and>
         (\<forall>r < next_ref s. objects (snd (capture_detection C (Some point) color s)) r = objects s r) \<and>
         (sorted_wrt (<) (get_empty_points C (live s)) \<and>
          sorted_wrt (<) (get_empty_points C (snd (play_move C (live s) (Some point) color))) \<longrightarrow>
            fst (capture_detection C (Some point) color s) =
              Inr (set (get_empty_points C (snd (play_move C (live s) (Some point) color))) \<noteq>
                   set (get_empty_points C (live s)) - {point}))"
proof -
  note cd = capture_detection_live [OF assms(1), where C = C and point = "Some point" and color = color]
  have "fst (capture_detection C (Some point) color s) =
      Inr (get_empty_points C (snd (play_move C (live s) (Some point) color)) \<noteq>
           remove1 point (get_empty_points C (live s)))"
    unfolding cd(4) capture_result_lists [OF assms(2)] by (simp add: eq_commute)
  moreover have "sorted_wrt (<) (get_empty_points C (live s)) \<and>
      sorted_wrt (<) (get_empty_points C (snd (play_move C (live s) (Some point) color))) \<longrightarrow>
      fst (capture_detection C (Some point) color s) =
        Inr (set (get_empty_points C (snd (play_move C (live s) (Some point) color))) \<noteq>
             set (get_empty_points C (live s)) - {point})"
    unfolding cd(4) using capture_result_sets [OF assms(2)] by simp
  ultimately show ?thesis
    using cd(1,2,5) by simp
qed

theorem capture_detection_compares_empty_points_witness:
  "fst (capture_detection demo (Some 5) 1 (session_on atari2 False)) = Inr True \<and>
   d_empty_points atari2 = [5, 8] \<and>
   d_empty_points (snd (d_play atari2 (Some 5) 1)) = [4, 8] \<and>
   live (snd (capture_detection demo (Some 5) 1 (session_on atari2 False))) = atari2 \<and>
   fst (capture_detection demo (Some 8) 1 (session_on atari2 False)) = Inr False \<and>
   d_empty_points (snd (d_play atari2 (Some 8) 1)) = [5] \<and>
   fst (capture_detection demo_unordered (Some 4) 1 (session_on empty2 False)) = Inr True"
proof -
  let ?s = "session_on atari2 False"
  let ?t = "session_on empty2 False"
  have wf: "board ?s < next_ref ?s" "board ?t < next_ref ?t"
    by (simp_all add: session_on_def)
  have lv: "live ?s = atari2" "live ?t = empty2"
    by (simp_all add: session_on_def live_def)
  have ops: "get_empty_points demo = d_empty_points" "play_move demo = d_play"
    by (simp_all add: demo_def)
  have e0: "d_empty_points atari2 = [5, 8]"
    by code_simp
  have e5: "d_empty_points (snd (d_play atari2 (Some 5) 1)) = [4, 8]"
    by code_simp
  have e8: "d_empty_points (snd (d_play atari2 (Some 8) 1)) = [5]"
    by code_simp
  have u0: "get_empty_points demo_unordered empty2 = [4, 5, 7, 8]"
    by code_simp
  have u4: "get_empty_points demo_unordered (snd (play_move demo_unordered empty2 (Some 4) 1)) =
      [8, 7, 5]"
    by code_simp
  from capture_detection_compares_empty_points [of ?s 5 demo 1] wf(1)
  have 5: "fst (capture_detection demo (Some 5) 1 ?s) = Inr True \<and>
      live (snd (capture_detection demo (Some 5) 1 ?s)) = atari2"
    by (simp add: lv ops e0 e5)
  from capture_detection_compares_empty_points [of ?s 8 demo 1] wf(1)
  have 8: "fst (capture_detection demo (Some 8) 1 ?s) = Inr False"
    by (simp add: lv ops e0 e8)
  from capture_detection_compares_empty_points [of ?t 4 demo_unordered 1] wf(2)
  have 4: "fst (capture_detection demo_unordered (Some 4) 1 ?t) = Inr True"
    by (simp add: lv u0 u4)
  from 5 8 4 show ?thesis
    by (simp add: e0 e5 e8)
qed

section \<open>The stages of play\<close>

text \<open>\<open>play_cmd\<close>'s body on two arguments, stage by stage; \<open>play_try_two\<close> is the whole
  body as one equation, for a move token of two characters or more and a board size in
  range, with the coordinate read as \<open>decode_coordinate\<close> reads it.\<close>

lemma coordinate_checker_two:
  "2 \<le> length a1 \<Longrightarrow> coordinate_checker a0 a1 = Inr (isdigit (a1 ! 1))"
  by (cases a1) (auto simp add: coordinate_checker_def str_index_def)


lemma play_try_two:
  assumes "color_to_int (util C) (lower a0) = Inr color" "2 \<le> length a1"
    and "2 \<le> bsize C (live s)" "bsize C (live s) \<le> MAXSIZE (util C)"
  shows "play_try C [a0, a1] s =
     (if color \<noteq> current_player C (live s)
      then (None, respond (illegal_move a0 a1 ''wrong color'') s)
      else if \<not> isdigit (a1 ! 1)
      then (None, respond (illegal_move a0 a1 ''wrong coordinate'') s)
      else
        (case decode_coordinate (util C) a1 (bsize C (live s)) of
           Coord row col \<Rightarrow>
             (let move = coord_to_point (util C) row col (bsize C (live s)) in
              if get_color C (live s) move \<noteq> 0
              then (None, respond (illegal_move a0 a1 ''occupied'') s)
              else if check_suicide C (live s) move color
              then (None, respond (illegal_move a0 a1 ''suicide'') s)
              else
                (case fst (capture_detection C (Some move) (current_player C (live s)) s) of
                   Inl e \<Rightarrow> (Some e, snd (capture_detection C (Some move) (current_player C (live s)) s))
                 | Inr captured \<Rightarrow>
                     if captured
                     then (None, respond (illegal_move a0 a1 ''capture'')
                                   (snd (capture_detection C (Some move) (current_player C (live s)) s)))
                     else
                       (let s1 = snd (capture_detection C (Some move) (current_player C (live s)) s);
                            s2 = set_live (snd (play_move C (live s1) (Some move) color)) s1;
                            s3 = (if \<not> fst (play_move C (live s1) (Some move) color)
                                  then debug_msg (''Move: '' @ a1 @ [CHR 0x0A] @ ''Board:'' @
                                           [CHR 0x0A] @ board2d C s2 @ [CHR 0x0A]) s2
                                  else s2)
                        in (None, respond [] s3))))
         | _ \<Rightarrow> (None, respond (illegal_move a0 a1 ''wrong coordinate'') s)))"
  unfolding play_try_def Let_def case_prod_unfold
  using assms
  by (simp add: list_index_def coordinate_checker_two move_to_coord_decode color_checker_def
      occupied_checker_def split: move.split sum.split)

lemma play_cmd_of_try:
  "play_try C args s = (None, s1) \<Longrightarrow> play_cmd C args s = (None, s1)"
  by (simp add: play_cmd_def)


lemma play_try_wrong_color:
  assumes "color_to_int (util C) (lower a0) = Inr color" "color \<noteq> current_player C (live s)"
  shows "play_try C (a0 # a1 # rest) s = (None, respond (illegal_move a0 a1 ''wrong color'') s)"
  using assms by (simp add: play_try_def list_index_def color_checker_def)

lemma objects_respond: "objects (respond p s) = objects s" "board (respond p s) = board s"
  "live (respond p s) = live s" "stderr (respond p s) = stderr s"
  by (simp_all add: respond_def live_def)












text \<open>No string in lower case is \<open>BORDER\<close>, so of the four keys of \<open>color_to_int\<close>
  the lookup of \<open>play_cmd\<close>, which is in lower case, can find three.\<close>

lemma lower_not_BORDER: "lower s \<noteq> ''BORDER''"
proof
  assume "lower s = ''BORDER''"
  then obtain c where "lower_char c = CHR ''B''"
    by (cases s) (auto simp add: lower_def)
  then have "code (lower_char c) = 66"
    by (simp add: code_def)
  then show False
    unfolding code_lower_char by (simp split: if_splits)
qed

lemma color_to_int_lower:
  "color_to_int U (lower a0) =
     (if lower a0 = ''b'' then Inr (BLACK U)
      else if lower a0 = ''w'' then Inr (WHITE U)
      else if lower a0 = ''e'' then Inr (EMPTY U)
      else Inl (KeyError (lower a0)))"
  using lower_not_BORDER [of a0] by (simp add: color_to_int_def)

lemma play_cmd_unknown_color:
  assumes "lower a0 \<notin> {''b'', ''w'', ''e''}"
  shows "play_cmd C [a0, a1] s = (None, respond (''Error: '' @ repr (lower a0)) s)"
proof -
  have "color_to_int (util C) (lower a0) = Inl (KeyError (lower a0))"
    using assms by (simp add: color_to_int_lower)
  then have "play_try C [a0, a1] s = (Some (KeyError (lower a0)), s)"
    by (simp add: play_try_def list_index_def)
  then show ?thesis
    by (simp add: play_cmd_def)
qed

section \<open>Claim C7: the wrong colour\<close>

text \<open>
  C7, as stated, fails: \<open>play_cmd\<close> looks the colour token up in lower case, and a token
  that names a colour otherwise does not reach the test of the colour. \<open>BORDER\<close> is a
  key of \<open>color_to_int\<close>, for the colour 3, which is not the side to move, Black; the
  answer to \<open>play BORDER a1\<close> is \<open>Error: 'border'\<close>, not the wrong-colour message.
  The same happens to \<open>white\<close>.
\<close>

theorem play_cmd_border_counterexample:
  "color_to_int (util demo) ''BORDER'' = Inr 3 \<and>
   current_player demo (live (session_on empty2 False)) = 1 \<and>
   fst (play_cmd demo [''BORDER'', ''a1''] (session_on empty2 False)) = None \<and>
   stdout (snd (play_cmd demo [''BORDER'', ''a1''] (session_on empty2 False))) =
     [''= Error: '' @ [CHR 0x27] @ ''border'' @ [CHR 0x27] @ [CHR 0x0A, CHR 0x0A]] \<and>
   stdout (snd (play_cmd demo [''white'', ''a1''] (session_on empty2 False))) =
     [''= Error: '' @ [CHR 0x27] @ ''white'' @ [CHR 0x27] @ [CHR 0x0A, CHR 0x0A]]"
  by code_simp

text \<open>
  C7, amended. When the colour token, in lower case, is \<open>b\<close>, \<open>w\<close> or \<open>e\<close>, and
  the colour it then names (\<open>BLACK\<close>, \<open>WHITE\<close>, \<open>EMPTY\<close>) is not the board's side to
  move, \<open>play_cmd\<close> answers with the wrong-colour message. For any other colour token
  the answer is \<open>Error: \<close> and the token, in lower case, as \<open>repr\<close> writes it. In both
  cases the session is as before but for that one response: no board object has changed.
\<close>

lemma respond_frame:
  assumes "r = (None, respond p s)"
  shows "r = (None, respond p s) \<and>
         stdout (snd r) = stdout s @ [''= '' @ p @ [CHR 0x0A, CHR 0x0A]] \<and>
         objects (snd r) = objects s \<and> board (snd r) = board s \<and> live (snd r) = live s"
  using assms by (simp add: objects_respond stdout_respond)

theorem play_cmd_wrong_color:
  "(color_to_int (util C) (lower a0) = Inr color \<and> color \<noteq> current_player C (live s) \<longrightarrow>
      play_cmd C [a0, a1] s = (None, respond (illegal_move a0 a1 ''wrong color'') s) \<and>
      stdout (snd (play_cmd C [a0, a1] s)) =
        stdout s @ [''= '' @ illegal_move a0 a1 ''wrong color'' @ [CHR 0x0A, CHR 0x0A]] \<and>
      objects (snd (play_cmd C [a0, a1] s)) = objects s \<and>
      board (snd (play_cmd C [a0, a1] s)) = board s \<and>
      live (snd (play_cmd C [a0, a1] s)) = live s) \<and>
   ((\<exists>c. color_to_int (util C) (lower a0) = Inr c) \<longleftrightarrow> lower a0 \<in> {''b'', ''w'', ''e''}) \<and>
   (lower a0 \<notin> {''b'', ''w'', ''e''} \<longrightarrow>
      play_cmd C [a0, a1] s = (None, respond (''Error: '' @ repr (lower a0)) s) \<and>
      stdout (snd (play_cmd C [a0, a1] s)) =
        stdout s @ [''= '' @ (''Error: '' @ repr (lower a0)) @ [CHR 0x0A, CHR 0x0A]] \<and>
      objects (snd (play_cmd C [a0, a1] s)) = objects s \<and>
      board (snd (play_cmd C [a0, a1] s)) = board s \<and>
      live (snd (play_cmd C [a0, a1] s)) = live s)"
proof -
  have 1: "color_to_int (util C) (lower a0) = Inr color \<and> color \<noteq> current_player C (live s) \<longrightarrow>
      play_cmd C [a0, a1] s = (None, respond (illegal_move a0 a1 ''wrong color'') s) \<and>
      stdout (snd (play_cmd C [a0, a1] s)) =
        stdout s @ [''= '' @ illegal_move a0 a1 ''wrong color'' @ [CHR 0x0A, CHR 0x0A]] \<and>
      objects (snd (play_cmd C [a0, a1] s)) = objects s \<and>
      board (snd (play_cmd C [a0, a1] s)) = board s \<and>
      live (snd (play_cmd C [a0, a1] s)) = live s"
  proof
    assume "color_to_int (util C) (lower a0) = Inr color \<and> color \<noteq> current_player C (live s)"
    then have "play_cmd C [a0, a1] s = (None, respond (illegal_move a0 a1 ''wrong color'') s)"
      by (intro play_cmd_of_try play_try_wrong_color [where color = color]) simp_all
    then show "play_cmd C [a0, a1] s = (None, respond (illegal_move a0 a1 ''wrong color'') s) \<and>
      stdout (snd (play_cmd C [a0, a1] s)) =
        stdout s @ [''= '' @ illegal_move a0 a1 ''wrong color'' @ [CHR 0x0A, CHR 0x0A]] \<and>
      objects (snd (play_cmd C [a0, a1] s)) = objects s \<and>
      board (snd (play_cmd C [a0, a1] s)) = board s \<and>
      live (snd (play_cmd C [a0, a1] s)) = live s"
      by (rule respond_frame)
  qed
  have 2: "(\<exists>c. color_to_int (util C) (lower a0) = Inr c) \<longleftrightarrow> lower a0 \<in> {''b'', ''w'', ''e''}"
    unfolding color_to_int_lower by simp
  have 3: "lower a0 \<notin> {''b'', ''w'', ''e''} \<longrightarrow>
      play_cmd C [a0, a1] s = (None, respond (''Error: '' @ repr (lower a0)) s) \<and>
      stdout (snd (play_cmd C [a0, a1] s)) =
        stdout s @ [''= '' @ (''Error: '' @ repr (lower a0)) @ [CHR 0x0A, CHR 0x0A]] \<and>
      objects (snd (play_cmd C [a0, a1] s)) = objects s \<and>
      board (snd (play_cmd C [a0, a1] s)) = board s \<and>
      live (snd (play_cmd C [a0, a1] s)) = live s"
  proof
    assume "lower a0 \<notin> {''b'', ''w'', ''e''}"
    then have "play_cmd C [a0, a1] s = (None, respond (''Error: '' @ repr (lower a0)) s)"
      by (rule play_cmd_unknown_color)
    then show "play_cmd C [a0, a1] s = (None, respond (''Error: '' @ repr (lower a0)) s) \<and>
      stdout (snd (play_cmd C [a0, a1] s)) =
        stdout s @ [''= '' @ (''Error: '' @ repr (lower a0)) @ [CHR 0x0A, CHR 0x0A]] \<and>
      objects (snd (play_cmd C [a0, a1] s)) = objects s \<and>
      board (snd (play_cmd C [a0, a1] s)) = board s \<and>
      live (snd (play_cmd C [a0, a1] s)) = live s"
      by (rule respond_frame)
  qed
  from 1 2 3 show ?thesis
    by (intro conjI)
qed

theorem play_cmd_wrong_color_witness:
  "play_cmd demo [''W'', ''a1''] (session_on empty2 False) =
     (None, respond (illegal_move ''W'' ''a1'' ''wrong color'') (session_on empty2 False)) \<and>
   illegal_move ''W'' ''a1'' ''wrong color'' =
     ''illegal move: '' @ [CHR 0x22] @ ''W a1'' @ [CHR 0x22] @ '' wrong color'' \<and>
   live (snd (play_cmd demo [''W'', ''a1''] (session_on empty2 False))) = empty2 \<and>
   play_cmd demo [''BORDER'', ''a1''] (session_on empty2 False) =
     (None, respond (''Error: '' @ [CHR 0x27] @ ''border'' @ [CHR 0x27]) (session_on empty2 False)) \<and>
   live (snd (play_cmd demo [''BORDER'', ''a1''] (session_on empty2 False))) = empty2"
proof -
  let ?s = "session_on empty2 False"
  have c: "color_to_int (util demo) (lower ''W'') = Inr 2"
    by code_simp
  have p: "2 \<noteq> current_player demo (live ?s)"
    by (simp add: demo_def live_def session_on_def empty2_def)
  have lv: "live ?s = empty2"
    by (simp add: session_on_def live_def)
  have m: "illegal_move ''W'' ''a1'' ''wrong color'' =
     ''illegal move: '' @ [CHR 0x22] @ ''W a1'' @ [CHR 0x22] @ '' wrong color''"
    by (simp add: illegal_move_def)
  have b: "lower ''BORDER'' \<notin> {''b'', ''w'', ''e''}"
    "repr (lower ''BORDER'') = [CHR 0x27] @ ''border'' @ [CHR 0x27]"
    by code_simp+
  from play_cmd_wrong_color [where C = demo and s = ?s and ?a1.0 = "''a1''" and ?a0.0 = "''W''"
      and color = 2] c p
  have w: "play_cmd demo [''W'', ''a1''] ?s =
      (None, respond (illegal_move ''W'' ''a1'' ''wrong color'') ?s) \<and>
      live (snd (play_cmd demo [''W'', ''a1''] ?s)) = live ?s"
    by (simp add: objects_respond)
  from conjunct1 [OF w] have 1: "play_cmd demo [''W'', ''a1''] ?s =
      (None, respond (illegal_move ''W'' ''a1'' ''wrong color'') ?s)" .
  from conjunct2 [OF w] have 2: "live (snd (play_cmd demo [''W'', ''a1''] ?s)) = empty2"
    unfolding lv .
  from play_cmd_wrong_color [where C = demo and s = ?s and ?a1.0 = "''a1''"
      and ?a0.0 = "''BORDER''"] b(1)
  have e: "play_cmd demo [''BORDER'', ''a1''] ?s =
      (None, respond (''Error: '' @ repr (lower ''BORDER'')) ?s) \<and>
      live (snd (play_cmd demo [''BORDER'', ''a1''] ?s)) = live ?s"
    by (simp add: objects_respond)
  from conjunct1 [OF e] have 3: "play_cmd demo [''BORDER'', ''a1''] ?s =
      (None, respond (''Error: '' @ [CHR 0x27] @ ''border'' @ [CHR 0x27]) ?s)"
    unfolding b(2) .
  from conjunct2 [OF e] have 4: "live (snd (play_cmd demo [''BORDER'', ''a1''] ?s)) = empty2"
    unfolding lv .
  show ?thesis
    apply (intro conjI)
        apply (fact 1)
       apply (fact m)
      apply (fact 2)
     apply (fact 3)
    apply (fact 4)
    done
qed

section \<open>Claim C1: the stages of play\<close>





section \<open>Claim C4: the legal moves\<close>

lemma capture_result_not_raising:
  "p \<in> set (get_empty_points C b) \<Longrightarrow> \<exists>r. capture_result C b (Some p) color = Inr r"
  by (simp add: capture_result_lists)

lemma legal_loop_filter:
  assumes "board s < next_ref s" "set ps \<subseteq> set (get_empty_points C (live s))"
  shows "fst (legal_loop C color ps acc s) = Inr (acc @ filter (legal_point C (live s) color) ps) \<and>
         live (snd (legal_loop C color ps acc s)) = live s \<and>
         board (snd (legal_loop C color ps acc s)) = board s \<and>
         board s < next_ref (snd (legal_loop C color ps acc s)) \<and>
         stdout (snd (legal_loop C color ps acc s)) = stdout s \<and>
         stderr (snd (legal_loop C color ps acc s)) = stderr s"
  using assms
proof (induction ps arbitrary: acc s)
  case Nil
  then show ?case by simp
next
  case (Cons p ps)
  show ?case
  proof (cases "is_legal C (live s) (Some p) color")
    case False
    then have "legal_loop C color (p # ps) acc s = legal_loop C color ps acc s"
      by simp
    moreover from False have "filter (legal_point C (live s) color) (p # ps) =
        filter (legal_point C (live s) color) ps"
      by (simp add: legal_point_def)
    ultimately show ?thesis
      using Cons.IH [of s acc] Cons.prems by simp
  next
    case True
    define s1 where "s1 = snd (capture_detection C (Some p) color s)"
    from Cons.prems have mem: "p \<in> set (get_empty_points C (live s))" by simp
    then obtain r where r: "capture_result C (live s) (Some p) color = Inr r"
      by (simp add: capture_result_lists)
    have cd: "capture_detection C (Some p) color s = (Inr r, s1)"
      using capture_detection_live(4) [OF Cons.prems(1), where C = C and point = "Some p" and color = color] r
      by (simp add: s1_def prod_eq_iff)
    have s1: "live s1 = live s" "board s1 = board s" "board s1 < next_ref s1"
      "stdout s1 = stdout s" "stderr s1 = stderr s"
      using capture_detection_live [OF Cons.prems(1), where C = C and point = "Some p" and color = color]
        capture_detection_frame [OF cd]
      by (simp_all add: s1_def)
    have step: "legal_loop C color (p # ps) acc s =
        legal_loop C color ps (if \<not> r then acc @ [p] else acc) s1"
      using True cd by simp
    have fl: "filter (legal_point C (live s) color) (p # ps) =
        (if \<not> r then [p] else []) @ filter (legal_point C (live s) color) ps"
      using True r by (simp add: legal_point_def)
    from Cons.IH [of s1 "if \<not> r then acc @ [p] else acc"] Cons.prems s1
    show ?thesis
      unfolding step fl by simp
  qed
qed

lemma legal_move_helper_filter:
  assumes "board s < next_ref s"
  shows "fst (legal_move_helper C s) =
           Inr (filter (legal_point C (live s) (current_player C (live s)))
                  (get_empty_points C (live s)))"
    and "fst (gogui_rules_legal_moves_points C s) = fst (legal_move_helper C s)"
    and "live (snd (gogui_rules_legal_moves_points C s)) = live s"
    and "stdout (snd (gogui_rules_legal_moves_points C s)) = stdout s"
    and "live (snd (legal_move_helper C s)) = live s"
  using legal_loop_filter [OF assms subset_refl, where C = C and color = "current_player C (live s)" and acc = "[]"]
  by (simp_all add: legal_move_helper_def gogui_rules_legal_moves_points_def Let_def)

text \<open>
  C4. In a session whose board object exists, \<open>legal_move_helper\<close> and the loop of
  \<open>gogui_rules_legal_moves_cmd\<close> return, without raising, one and the same list of
  points, and every point of it is among the empty points the board lists, is legal for
  the side to move according to the board's \<open>is_legal\<close>, and is a point for which
  \<open>capture_detection\<close> returns \<open>False\<close>. The board is in the state it was in.
  (Lemma \<open>legal_move_helper_filter\<close>: the list is exactly the empty points with these
  two properties, in the order of the enumeration.)
\<close>

theorem legal_moves_exclude:
  assumes "board s < next_ref s"
  shows "\<exists>points.
           fst (legal_move_helper C s) = Inr points \<and>
           fst (gogui_rules_legal_moves_points C s) = Inr points \<and>
           (\<forall>p \<in> set points.
              p \<in> set (get_empty_points C (live s)) \<and>
              is_legal C (live s) (Some p) (current_player C (live s)) \<and>
              fst (capture_detection C (Some p) (current_player C (live s)) s) = Inr False) \<and>
           live (snd (legal_move_helper C s)) = live s \<and>
           live (snd (gogui_rules_legal_moves_points C s)) = live s"
  using legal_move_helper_filter [OF assms, where C = C]
    capture_detection_live(4) [OF assms, where C = C]
  by (auto simp add: legal_point_def)


theorem legal_moves_exclude_witness:
  "fst (legal_move_helper demo (session_on atari2 False)) = Inr [8] \<and>
   fst (gogui_rules_legal_moves_points demo (session_on atari2 False)) = Inr [8] \<and>
   8 \<in> set (get_empty_points demo atari2) \<and>
   is_legal demo atari2 (Some 8) 1 \<and>
   fst (capture_detection demo (Some 8) 1 (session_on atari2 False)) = Inr False"
proof -
  let ?s = "session_on atari2 False"
  have wf: "board ?s < next_ref ?s"
    by (simp add: session_on_def)
  have lv: "live ?s = atari2"
    by (simp add: session_on_def live_def)
  have cp: "current_player demo atari2 = 1"
    by (simp add: demo_def atari2_def)
  have h: "fst (legal_move_helper demo ?s) = Inr [8]"
    by code_simp
  from legal_moves_exclude [OF wf, of demo] obtain points where
    p: "fst (legal_move_helper demo ?s) = Inr points"
      "fst (gogui_rules_legal_moves_points demo ?s) = Inr points"
      "\<forall>p \<in> set points.
          p \<in> set (get_empty_points demo (live ?s)) \<and>
          is_legal demo (live ?s) (Some p) (current_player demo (live ?s)) \<and>
          fst (capture_detection demo (Some p) (current_player demo (live ?s)) ?s) = Inr False"
    by blast
  from p(1) h have "points = [8]" by simp
  with p h show ?thesis
    by (simp add: lv cp)
qed

section \<open>Claim C5: the order of the legal moves\<close>

lemma format_point_not_Nil: "format_point U mv = Inr x \<Longrightarrow> x \<noteq> []"
  by (cases mv) (auto simp add: format_point_def split: if_splits sum.splits)

lemma format_legal_point_not_Nil: "format_legal_point C b p = Inr x \<Longrightarrow> x \<noteq> []"
  by (auto simp add: format_legal_point_def split: sum.splits dest: format_point_not_Nil)

lemma map_exc_Inr: "map_exc f xs = Inr ys \<Longrightarrow> y \<in> set ys \<Longrightarrow> \<exists>x. f x = Inr y"
proof (induction xs arbitrary: ys)
  case Nil
  then show ?case by simp
next
  case (Cons x xs)
  from Cons.prems(1) obtain z zs where z: "f x = Inr z" "map_exc f xs = Inr zs" "ys = z # zs"
    by (auto split: sum.splits)
  with Cons.prems(2) Cons.IH [of zs] show ?case by auto
qed

lemma map_exc_not_Nil:
  assumes "map_exc (format_legal_point C b) ps = Inr ys"
  shows "[] \<notin> set ys"
  using map_exc_Inr [OF assms, of "[]"] format_legal_point_not_Nil [of C b _ "[]"]
  by blast

text \<open>Strings with the same first character stay in the order they come in, which
  need not be the order of their rows nor that of the strings.\<close>

lemma sort_first_char_keeps_ties:
  "sort_first_char [''B1'', ''A2'', ''A10'', ''A1''] = Inr [''A2'', ''A10'', ''A1'', ''B1'']"
  by code_simp

lemma legal_moves_cmd_response:
  assumes wf: "board s < next_ref s"
    and pts: "fst (gogui_rules_legal_moves_points C s) = Inr points"
    and fmt: "map_exc (format_legal_point C (live s)) points = Inr formatted"
  shows "gogui_rules_legal_moves_cmd C args s =
     (None, respond (join '' '' (sort_key (\<lambda>x. code (hd x)) formatted))
              (snd (gogui_rules_legal_moves_points C s)))"
proof -
  define s1 where "s1 = snd (gogui_rules_legal_moves_points C s)"
  have eq: "gogui_rules_legal_moves_points C s = (Inr points, s1)"
    using pts by (simp add: s1_def prod_eq_iff)
  have lv: "live s1 = live s"
    using legal_move_helper_filter(3) [OF wf, where C = C] by (simp add: s1_def)
  have ne: "[] \<notin> set formatted"
    using fmt by (rule map_exc_not_Nil)
  show ?thesis
    using eq lv fmt ne
    by (simp add: gogui_rules_legal_moves_cmd_def sort_first_char_def s1_def [symmetric])
qed

text \<open>
  C5. In a session whose board object exists, let \<open>points\<close> be the list the loop
  returns and \<open>formatted\<close> the coordinate strings of its points in that order, all of
  them formatted without an exception. Then \<open>gogui_rules_legal_moves_cmd\<close> writes one
  success response, the strings of a list \<open>sorted_list\<close> joined by single spaces, where
  \<open>sorted_list\<close> has the same strings as \<open>formatted\<close>, is ordered by first character
  only, and keeps the strings with one and the same first character in the order they
  have in \<open>formatted\<close>, the order of the enumeration of the empty points.
\<close>

theorem legal_moves_response_sorted:
  assumes "board s < next_ref s"
    and "fst (gogui_rules_legal_moves_points C s) = Inr points"
    and "map_exc (format_legal_point C (live s)) points = Inr formatted"
  shows "\<exists>sorted_list.
           fst (gogui_rules_legal_moves_cmd C args s) = None \<and>
           stdout (snd (gogui_rules_legal_moves_cmd C args s)) =
             stdout s @ [''= '' @ join '' '' sorted_list @ [CHR 0x0A, CHR 0x0A]] \<and>
           mset sorted_list = mset formatted \<and>
           sorted (map (\<lambda>x. code (hd x)) sorted_list) \<and>
           (\<forall>k. filter (\<lambda>x. code (hd x) = k) sorted_list =
                filter (\<lambda>x. code (hd x) = k) formatted)"
  using legal_moves_cmd_response [OF assms, of args]
    legal_move_helper_filter(4) [OF assms(1), where C = C]
  by (intro exI [of _ "sort_key (\<lambda>x. code (hd x)) formatted"])
    (simp add: stdout_respond sort_key_stable)

theorem legal_moves_response_sorted_witness:
  "map_exc (format_legal_point demo empty2) [4, 5, 7, 8] = Inr [''A1'', ''B1'', ''A2'', ''B2''] \<and>
   (\<exists>sorted_list.
      stdout (snd (gogui_rules_legal_moves_cmd demo [] (session_on empty2 False))) =
        [''= '' @ join '' '' sorted_list @ [CHR 0x0A, CHR 0x0A]] \<and>
      mset sorted_list = mset [''A1'', ''B1'', ''A2'', ''B2''] \<and>
      sorted (map (\<lambda>x. code (hd x)) sorted_list) \<and>
      filter (\<lambda>x. code (hd x) = 65) sorted_list = [''A1'', ''A2''] \<and>
      filter (\<lambda>x. code (hd x) = 66) sorted_list = [''B1'', ''B2'']) \<and>
   stdout (snd (gogui_rules_legal_moves_cmd demo [] (session_on empty2 False))) =
     [''= A1 A2 B1 B2'' @ [CHR 0x0A, CHR 0x0A]]"
proof -
  let ?s = "session_on empty2 False"
  have wf: "board ?s < next_ref ?s"
    by (simp add: session_on_def)
  have lv: "live ?s = empty2" "stdout ?s = []"
    by (simp_all add: session_on_def live_def)
  have pts: "fst (gogui_rules_legal_moves_points demo ?s) = Inr [4, 5, 7, 8]"
    by code_simp
  have fmt: "map_exc (format_legal_point demo empty2) [4, 5, 7, 8] =
      Inr [''A1'', ''B1'', ''A2'', ''B2'']"
    by code_simp
  have out: "stdout (snd (gogui_rules_legal_moves_cmd demo [] ?s)) =
     [''= A1 A2 B1 B2'' @ [CHR 0x0A, CHR 0x0A]]"
    by code_simp
  have fa: "filter (\<lambda>x. code (hd x) = 65) [''A1'', ''B1'', ''A2'', ''B2''] = [''A1'', ''A2'']"
    "filter (\<lambda>x. code (hd x) = 66) [''A1'', ''B1'', ''A2'', ''B2''] = [''B1'', ''B2'']"
    by code_simp+
  from legal_moves_response_sorted [OF wf pts, of "[''A1'', ''B1'', ''A2'', ''B2'']" "[]"] fmt
  obtain sorted_list where
    "stdout (snd (gogui_rules_legal_moves_cmd demo [] ?s)) =
        stdout ?s @ [''= '' @ join '' '' sorted_list @ [CHR 0x0A, CHR 0x0A]]"
    "mset sorted_list = mset [''A1'', ''B1'', ''A2'', ''B2'']"
    "sorted (map (\<lambda>x. code (hd x)) sorted_list)"
    "\<forall>k. filter (\<lambda>x. code (hd x) = k) sorted_list =
         filter (\<lambda>x. code (hd x) = k) [''A1'', ''B1'', ''A2'', ''B2'']"
    unfolding lv by blast
  then have "\<exists>sorted_list.
      stdout (snd (gogui_rules_legal_moves_cmd demo [] ?s)) =
        [''= '' @ join '' '' sorted_list @ [CHR 0x0A, CHR 0x0A]] \<and>
      mset sorted_list = mset [''A1'', ''B1'', ''A2'', ''B2''] \<and>
      sorted (map (\<lambda>x. code (hd x)) sorted_list) \<and>
      filter (\<lambda>x. code (hd x) = 65) sorted_list = [''A1'', ''A2''] \<and>
      filter (\<lambda>x. code (hd x) = 66) sorted_list = [''B1'', ''B2'']"
    unfolding lv fa [symmetric] by (intro exI [of _ sorted_list]) simp
  with fmt out show ?thesis by blast
qed

section \<open>Claim C2: exceptions of handlers\<close>

lemma has_arg_error_False:
  "fst (has_arg_error cmd n s) = False \<Longrightarrow> has_arg_error cmd n s = (False, s)"
  by (auto simp add: has_arg_error_def split: option.splits prod.splits if_splits)

lemma run_elements_raise:
  assumes "map_of (commands C) name = Some h"
    and "\<not> fst (has_arg_error name (int (length args)) s)"
    and "h args s = (Some e, s')"
  shows "run_elements C (name # args) s = log_and_raise C e s'"
  using assms has_arg_error_False [of name "int (length args)" s]
  by (simp add: run_elements_def)

lemma fst_play_cmd: "fst (play_cmd C args s) = None"
  using play_cmd_cases [of s C args] by auto

lemma commands_keys: "map fst (commands C) = command_names"
  by (simp add: commands_def command_names_def)

text \<open>
  C2, as stated, fails in its last part: a failure inside the \<open>play\<close> handler is
  turned into a protocol response. For the line \<open>play b a\<close> in debug mode,
  \<open>coordinate_checker\<close> raises \<open>IndexError\<close>; \<open>play_cmd\<close> catches it and writes
  \<open>= Error: string index out of range\<close>; \<open>get_cmd\<close> logs nothing and raises nothing.
\<close>

theorem handler_exception_counterexample:
  "fst (get_cmd demo (''play b a'' @ [CHR 0x0A]) (session_on empty2 True)) = None \<and>
   stdout (snd (get_cmd demo (''play b a'' @ [CHR 0x0A]) (session_on empty2 True))) =
     [''= Error: string index out of range'' @ [CHR 0x0A, CHR 0x0A]] \<and>
   stderr (snd (get_cmd demo (''play b a'' @ [CHR 0x0A]) (session_on empty2 True))) = []"
  by code_simp

text \<open>
  C2, amended. For a command of the table that passes the arity check: when its handler
  raises an exception of class \<open>Exception\<close>, \<open>get_cmd\<close> raises the same exception
  to its caller, having written the two diagnostic messages (the text of the exception,
  then the stack trace) to standard error in debug mode and nothing otherwise;
  \<open>get_cmd\<close> writes no response to standard output for it; and the command loop ends
  with that exception. The \<open>play\<close> handler never raises: its own \<open>except\<close> clause
  has answered. (\<open>SystemExit\<close>, raised by \<open>quit\<close>, is not of class \<open>Exception\<close>
  and passes through without a log, lemma \<open>quit_not_logged\<close>.)
\<close>

theorem handler_exception_logged_and_raised:
  assumes "map_of (commands C) name = Some h"
    and "\<not> fst (has_arg_error name (int (length args)) s)"
    and "h args s = (Some e, s')"
    and "is_Exception e"
  shows "run_elements C (name # args) s =
           (Some e,
            s'\<lparr>stderr := stderr s' @
               (if debug_mode s'
                then [''Error executing command '' @ str_exc e @ [CHR 0x0A],
                      ''Stack Trace:'' @ [CHR 0x0A] @ format_exc C e @ [CHR 0x0A]]
                else [])\<rparr>) \<and>
         stdout (snd (run_elements C (name # args) s)) = stdout s' \<and>
         (get_cmd C line s = run_elements C (name # args) s \<longrightarrow>
            start_connection C (line # rest) s = run_elements C (name # args) s) \<and>
         fst (play_cmd C args s) = None"
proof -
  have r: "run_elements C (name # args) s = log_and_raise C e s'"
    using assms(1,2,3) by (rule run_elements_raise)
  have l: "log_and_raise C e s' =
           (Some e,
            s'\<lparr>stderr := stderr s' @
               (if debug_mode s'
                then [''Error executing command '' @ str_exc e @ [CHR 0x0A],
                      ''Stack Trace:'' @ [CHR 0x0A] @ format_exc C e @ [CHR 0x0A]]
                else [])\<rparr>)"
    using assms(4) by (simp add: log_and_raise_def debug_msg_def)
  from r l fst_play_cmd [of C args s] show ?thesis by simp
qed

lemma quit_not_logged:
  "run_elements C [''quit''] s = (Some SystemExit, respond [] s)"
  by (simp add: run_elements_def has_arg_error_def map_of_argmap commands_def quit_cmd_def
      log_and_raise_def)

theorem handler_exception_logged_and_raised_witness:
  "fst (get_cmd demo (''boardsize x'' @ [CHR 0x0A]) (session_on empty2 True)) =
     Some (ValueError (''invalid literal for int() with base 10: '' @ [CHR 0x27] @ ''x'' @ [CHR 0x27])) \<and>
   stderr (snd (get_cmd demo (''boardsize x'' @ [CHR 0x0A]) (session_on empty2 True))) =
     [''Error executing command invalid literal for int() with base 10: '' @
        [CHR 0x27] @ ''x'' @ [CHR 0x27] @ [CHR 0x0A],
      ''Stack Trace:'' @ [CHR 0x0A] @ ''Traceback'' @ [CHR 0x0A]] \<and>
   stdout (snd (get_cmd demo (''boardsize x'' @ [CHR 0x0A]) (session_on empty2 True))) = [] \<and>
   fst (start_connection demo [''boardsize x'' @ [CHR 0x0A], ''name'' @ [CHR 0x0A]]
          (session_on empty2 True)) =
     Some (ValueError (''invalid literal for int() with base 10: '' @ [CHR 0x27] @ ''x'' @ [CHR 0x27]))"
proof -
  let ?s = "session_on empty2 True"
  let ?line = "''boardsize x'' @ [CHR 0x0A]"
  let ?e = "ValueError (''invalid literal for int() with base 10: '' @ [CHR 0x27] @ ''x'' @ [CHR 0x27])"
  have toks: "split ?line = [''boardsize'', ''x'']"
    by code_simp
  have line: "get_cmd demo ?line ?s = run_elements demo [''boardsize'', ''x''] ?s"
    using get_cmd_plain [of ?line "CHR ''b''" "''oardsize x'' @ [CHR 0x0A]" demo] toks
    by (simp add: isspace_def isdigit_def isdecimal_def code_def)
  have h: "map_of (commands demo) ''boardsize'' = Some (boardsize_cmd demo)"
    by (simp add: commands_def)
  have ar: "\<not> fst (has_arg_error ''boardsize'' (int (length [''x''])) ?s)"
    by (simp add: has_arg_error_def map_of_argmap)
  have pi: "int_parse (max_str_digits (util demo)) ''x'' = Invalid_literal"
    by code_simp
  have rp: "take 200 (repr ''x'') = [CHR 0x27] @ ''x'' @ [CHR 0x27]"
    by code_simp
  have raise: "boardsize_cmd demo [''x''] ?s = (Some ?e, ?s)"
    using pi rp by (simp add: boardsize_cmd_def list_index_def int_arg_def)
  have fe: "format_exc demo = (\<lambda>e. ''Traceback'')" "debug_mode ?s" "stderr ?s = []" "stdout ?s = []"
    by (simp_all add: demo_def session_on_def)
  from handler_exception_logged_and_raised [OF h ar raise, of ?line "[''name'' @ [CHR 0x0A]]"] line
  have "get_cmd demo ?line ?s =
      (Some ?e, ?s\<lparr>stderr := stderr ?s @
         (if debug_mode ?s
          then [''Error executing command '' @ str_exc ?e @ [CHR 0x0A],
                ''Stack Trace:'' @ [CHR 0x0A] @ format_exc demo ?e @ [CHR 0x0A]]
          else [])\<rparr>)"
    and "start_connection demo [?line, ''name'' @ [CHR 0x0A]] ?s = get_cmd demo ?line ?s"
    by simp_all
  then show ?thesis
    by (simp add: fe)
qed

end
